theory Spec2Isabelle
  imports Complex_Main "HOL-Library.List_Lexorder" "HOL-Library.Sublist"
begin

section \<open>JavaScript values\<close>

text \<open>
  The engine is the class \<open>OpenClawMemory\<close>. Its option objects have optional fields:
  an absent field (\<open>undefined\<close>) is \<open>None\<close>. Numbers that count rows are modelled as
  \<open>int\<close>, scores as \<open>real\<close> (the finite numbers of JavaScript), strings as \<open>string\<close>,
  timestamps as \<open>int\<close> (ordered as the database orders \<open>timestamptz\<close> values).
\<close>

type_synonym vector = "real list"
type_synonym timestamp = int
type_synonym json_object = "(string \<times> string) list"

text \<open>\<open>v || d\<close> on an optional row count: \<open>d\<close> replaces \<open>undefined\<close> and \<open>0\<close>.\<close>

definition or_default :: "int option \<Rightarrow> int \<Rightarrow> int" where
  "or_default v d = (case v of None \<Rightarrow> d | Some n \<Rightarrow> if n = 0 then d else n)"

text \<open>\<open>v || d\<close> on an optional string: \<open>d\<close> replaces \<open>undefined\<close> and the empty string.\<close>

definition or_default_string :: "string option \<Rightarrow> string \<Rightarrow> string" where
  "or_default_string v d = (case v of None \<Rightarrow> d | Some s \<Rightarrow> if s = [] then d else s)"

text \<open>\<open>v ?? d\<close>: \<open>d\<close> replaces \<open>undefined\<close> only.\<close>

definition nullish :: "'a option \<Rightarrow> 'a \<Rightarrow> 'a" where
  "nullish v d = (case v of None \<Rightarrow> d | Some x \<Rightarrow> x)"

text \<open>
  \<open>if (v) q = f(v, q)\<close> on an optional string and on an optional number: \<open>undefined\<close>,
  the empty string and \<open>0\<close> are falsy and leave \<open>q\<close> as it is.
\<close>

definition if_string :: "string option \<Rightarrow> (string \<Rightarrow> 'a \<Rightarrow> 'a) \<Rightarrow> 'a \<Rightarrow> 'a" where
  "if_string v f q = (case v of None \<Rightarrow> q | Some s \<Rightarrow> if s = [] then q else f s q)"

definition if_number :: "real option \<Rightarrow> (real \<Rightarrow> 'a \<Rightarrow> 'a) \<Rightarrow> 'a \<Rightarrow> 'a" where
  "if_number v f q = (case v of None \<Rightarrow> q | Some x \<Rightarrow> if x = 0 then q else f x q)"

section \<open>Data model\<close>

datatype provider = OpenAI | Voyage | NoProvider

record config =
  agentId :: string
  embeddingProvider :: "provider option"
  openaiApiKey :: "string option"
  embeddingModel :: "string option"

record memory =
  mem_id :: string
  agent_id :: string
  user_id :: "string option"
  category :: "string option"
  content :: string
  importance :: real
  source_session_id :: "string option"
  created_at :: timestamp
  updated_at :: timestamp
  expires_at :: "timestamp option"
  embedding :: "vector option"
  metadata :: json_object

datatype role = User | Assistant | System | Tool

record message =
  msg_id :: string
  session_id :: string
  msg_role :: role
  msg_content :: string
  msg_created_at :: timestamp
  token_count :: "int option"
  msg_metadata :: json_object

text \<open>
  Errors. \<open>db_error\<close> is what a Supabase response carries in its \<open>error\<close> field;
  \<open>error\<close> is what a method of the engine throws.
\<close>

datatype db_error = ConnectionFailure | BadRequest | RangeNotSatisfiable | NotFound

datatype error =
    OpenAIKeyNotProvided
  | VoyageNotImplemented
  | ProviderFailure string
  | StoreError db_error

text \<open>
  The store: the \<open>memories\<close> and \<open>messages\<close> tables, and the state of the connection
  (\<open>fault s = Some e\<close>: every request is answered with the error \<open>e\<close>).
\<close>

record store =
  memories :: "memory list"
  messages :: "message list"
  fault :: "db_error option"

text \<open>The column values the database generates for a new row.\<close>

record db_defaults =
  new_id :: string
  now :: timestamp

text \<open>The object \<open>remember\<close> passes to \<open>insert\<close>.\<close>

record memory_insert =
  ins_agent_id :: string
  ins_user_id :: "string option"
  ins_category :: "string option"
  ins_content :: string
  ins_importance :: real
  ins_source_session_id :: "string option"
  ins_expires_at :: "timestamp option"
  ins_embedding :: "vector option"
  ins_metadata :: json_object

text \<open>The argument of \<open>remember\<close>.\<close>

record remember_input =
  in_content :: string
  in_category :: "string option"
  in_importance :: "real option"
  in_userId :: "string option"
  in_sessionId :: "string option"
  in_expiresAt :: "timestamp option"
  in_metadata :: "json_object option"

text \<open>
  The parameters of the three database functions called through \<open>rpc\<close>.
\<close>

record match_args =
  query_embedding :: vector
  match_threshold :: real
  match_count :: int
  p_agent_id :: string
  p_user_id :: "string option"
  p_category :: "string option"
  p_min_importance :: "real option"

record hybrid_args =
  h_query_embedding :: vector
  h_query_text :: string
  h_vector_weight :: real
  h_keyword_weight :: real
  h_match_count :: int
  h_agent_id :: string
  h_user_id :: "string option"
  h_category :: "string option"
  h_min_importance :: "real option"

record similar_args =
  s_memory_id :: string
  s_match_threshold :: real
  s_match_count :: int

text \<open>
  The option objects of \<open>recall\<close> and \<open>hybridRecall\<close> (one object type with the
  fields of both, since \<open>hybridRecall\<close> hands its own object to \<open>recall\<close>), of
  \<open>findSimilarMemories\<close>, \<open>getMessages\<close> and \<open>getContext\<close>, and the result of
  \<open>getContext\<close>.
\<close>

record recall_opts =
  opt_userId :: "string option"
  opt_category :: "string option"
  opt_limit :: "int option"
  opt_minImportance :: "real option"
  opt_minSimilarity :: "real option"
  opt_vectorWeight :: "real option"
  opt_keywordWeight :: "real option"

record similar_opts =
  so_minSimilarity :: "real option"
  so_limit :: "int option"

record messages_opts =
  mo_limit :: "int option"
  mo_offset :: "int option"

record context_opts =
  ctx_userId :: "string option"
  ctx_sessionId :: "string option"
  maxMemories :: "int option"
  maxMessages :: "int option"

record context_payload =
  ctx_memories :: "memory list"
  recentMessages :: "message list"
  summary :: string

text \<open>
  The external collaborators whose code is not part of the engine, taken as
  parameters: the OpenAI embeddings endpoint (API key, model, input; an error message
  or a vector), the similarity operator of the vector index, the database function
  \<open>hybrid_search_memories\<close>, and the parser of the store for the argument of \<open>or\<close>
  (the condition on a row that the argument spells, or nothing when the store refuses
  the argument as malformed).
\<close>

record services =
  openai_embeddings_create :: "string \<Rightarrow> string \<Rightarrow> string \<Rightarrow> string + vector"
  similarity :: "vector \<Rightarrow> vector \<Rightarrow> real"
  hybrid_search_memories :: "hybrid_args \<Rightarrow> memory list \<Rightarrow> db_error + memory list"
  or_parser :: "string \<Rightarrow> (memory \<Rightarrow> bool) option"

section \<open>Embedding generation\<close>

text \<open>The constructor creates the OpenAI client only when \<open>config.openaiApiKey\<close> is truthy.\<close>

definition openai :: "config \<Rightarrow> string option" where
  "openai c = (case openaiApiKey c of None \<Rightarrow> None | Some k \<Rightarrow> if k = [] then None else Some k)"

text \<open>
  \<open>generateEmbedding\<close>: \<open>Inr None\<close> is the \<open>null\<close> the method returns when no provider is
  configured, \<open>Inl\<close> an exception.
\<close>

definition generateEmbedding :: "services \<Rightarrow> config \<Rightarrow> string \<Rightarrow> error + vector option" where
  "generateEmbedding sv c text =
     (case embeddingProvider c of
        None \<Rightarrow> Inr None
      | Some NoProvider \<Rightarrow> Inr None
      | Some OpenAI \<Rightarrow>
          (case openai c of
             None \<Rightarrow> Inl OpenAIKeyNotProvided
           | Some key \<Rightarrow>
               (let model = or_default_string (embeddingModel c) ''text-embedding-3-small''
                in case openai_embeddings_create sv key model text of
                     Inl msg \<Rightarrow> Inl (ProviderFailure msg)
                   | Inr v \<Rightarrow> Inr (Some v)))
      | Some Voyage \<Rightarrow> Inl VoyageNotImplemented)"

section \<open>The memories table\<close>

text \<open>
  \<open>insert(...).select().single()\<close>: the new row gets its generated columns, is appended
  to the table and is returned. A failed request changes nothing.
\<close>

definition insert_memory :: "store \<Rightarrow> db_defaults \<Rightarrow> memory_insert \<Rightarrow> (db_error + memory) \<times> store" where
  "insert_memory s d r =
     (case fault s of
        Some e \<Rightarrow> (Inl e, s)
      | None \<Rightarrow>
          (let m = \<lparr> mem_id = new_id d, agent_id = ins_agent_id r, user_id = ins_user_id r,
                     category = ins_category r, content = ins_content r,
                     importance = ins_importance r,
                     source_session_id = ins_source_session_id r,
                     created_at = now d, updated_at = now d,
                     expires_at = ins_expires_at r, embedding = ins_embedding r,
                     metadata = ins_metadata r \<rparr>
           in (Inr m, s\<lparr>memories := memories s @ [m]\<rparr>)))"

section \<open>remember\<close>

definition remember_row :: "config \<Rightarrow> remember_input \<Rightarrow> vector option \<Rightarrow> memory_insert" where
  "remember_row c inp emb =
     \<lparr> ins_agent_id = agentId c,
       ins_user_id = in_userId inp,
       ins_category = in_category inp,
       ins_content = in_content inp,
       ins_importance = nullish (in_importance inp) 0.5,
       ins_source_session_id = in_sessionId inp,
       ins_expires_at = in_expiresAt inp,
       ins_embedding = emb,
       ins_metadata = (case in_metadata inp of None \<Rightarrow> [] | Some md \<Rightarrow> md) \<rparr>"

definition remember ::
  "services \<Rightarrow> config \<Rightarrow> store \<Rightarrow> db_defaults \<Rightarrow> remember_input \<Rightarrow> (error + memory) \<times> store" where
  "remember sv c s d inp =
     (case generateEmbedding sv c (in_content inp) of
        Inl e \<Rightarrow> (Inl e, s)
      | Inr emb \<Rightarrow>
          (case insert_memory s d (remember_row c inp emb) of
             (Inl e, s') \<Rightarrow> (Inl (StoreError e), s')
           | (Inr m, s') \<Rightarrow> (Inr m, s')))"

section \<open>Queries on the memories table\<close>

text \<open>
  \<open>ilike\<close>: the pattern language of PostgreSQL's \<open>LIKE\<close>, compared without regard to the
  case of ASCII letters. \<open>%\<close> stands for any sequence of characters, \<open>_\<close> for any one
  character, and a backslash makes the next pattern character literal. PostgREST reads
  \<open>*\<close> in the pattern of \<open>like\<close> and \<open>ilike\<close> as \<open>%\<close>.
\<close>

definition lower_char :: "char \<Rightarrow> char" where
  "lower_char ch =
     (case map_of (zip ''ABCDEFGHIJKLMNOPQRSTUVWXYZ'' ''abcdefghijklmnopqrstuvwxyz'') ch of
        None \<Rightarrow> ch
      | Some l \<Rightarrow> l)"

fun like :: "string \<Rightarrow> string \<Rightarrow> bool" where
  "like [] s = (s = [])"
| "like (p # ps) s =
     (if p = CHR ''%'' then
        like ps s \<or> (case s of [] \<Rightarrow> False | _ # cs \<Rightarrow> like (p # ps) cs)
      else if p = CHR ''_'' then
        (case s of [] \<Rightarrow> False | _ # cs \<Rightarrow> like ps cs)
      else if p = CHR 0x5C then
        (case ps of
           [] \<Rightarrow> False
         | e # es \<Rightarrow> (case s of [] \<Rightarrow> False | ch # cs \<Rightarrow> lower_char e = lower_char ch \<and> like es cs))
      else
        (case s of [] \<Rightarrow> False | ch # cs \<Rightarrow> lower_char p = lower_char ch \<and> like ps cs))"

definition ilike :: "string \<Rightarrow> string \<Rightarrow> bool" where
  "ilike pattern s = like (map (\<lambda>ch. if ch = CHR ''*'' then CHR ''%'' else ch) pattern) s"

text \<open>The characters that stand for themselves in a pattern.\<close>

definition plain_char :: "char \<Rightarrow> bool" where
  "plain_char ch = (ch \<noteq> CHR ''%'' \<and> ch \<noteq> CHR ''_'' \<and> ch \<noteq> CHR 0x5C \<and> ch \<noteq> CHR ''*'')"

text \<open>
  A request built with the query builder: the column filters, the arguments of the
  calls of \<open>or\<close> as the strings they are, the \<open>order\<close> terms in the order of the calls,
  and the \<open>limit\<close>. A row is selected when all the column filters hold and every
  argument of \<open>or\<close> holds.
\<close>

datatype mem_filter =
    Eq_agent_id string
  | Eq_id string
  | Eq_category string
  | Gte_importance real
  | Ilike_content string

datatype mem_order = Importance_desc | Created_at_desc

record mem_query =
  q_filters :: "mem_filter list"
  q_or :: "string list"
  q_orders :: "mem_order list"
  q_limit :: "int option"

fun holds :: "mem_filter \<Rightarrow> memory \<Rightarrow> bool" where
  "holds (Eq_agent_id a) m = (agent_id m = a)"
| "holds (Eq_id i) m = (mem_id m = i)"
| "holds (Eq_category c) m = (category m = Some c)"
| "holds (Gte_importance x) m = (x \<le> importance m)"
| "holds (Ilike_content p) m = ilike p (content m)"

definition matches :: "mem_filter list \<Rightarrow> memory \<Rightarrow> bool" where
  "matches fs m = list_all (\<lambda>f. holds f m) fs"

text \<open>
  The argument of \<open>or\<close> that \<open>recall\<close> builds is the template string
  \<open>`user_id.eq.${opts.userId},user_id.is.null`\<close>: the user id is spliced into it as it
  is.
\<close>

definition user_or :: "string \<Rightarrow> string" where
  "user_or u = ''user_id.eq.'' @ u @ '',user_id.is.null''"

text \<open>
  The characters of a value that the filter syntax reads as they are: letters, digits,
  the hyphen and the underscore. The comma, the dot, the colon, the parentheses, the
  double quote and the backslash are among the characters that it reserves.
\<close>

definition plain_id_char :: "char \<Rightarrow> bool" where
  "plain_id_char ch =
     (ch \<in> set ''abcdefghijklmnopqrstuvwxyzABCDEFGHIJKLMNOPQRSTUVWXYZ0123456789-_'')"

fun strip_prefix :: "string \<Rightarrow> string \<Rightarrow> string option" where
  "strip_prefix [] s = Some s"
| "strip_prefix (p # ps) [] = None"
| "strip_prefix (p # ps) (ch # cs) = (if p = ch then strip_prefix ps cs else None)"

text \<open>
  The user id of an argument of \<open>or\<close> that is the template filled with a non-empty
  value of plain characters; no other string has one.
\<close>

definition user_of_or :: "string \<Rightarrow> string option" where
  "user_of_or str =
     (case strip_prefix ''user_id.eq.'' str of
        None \<Rightarrow> None
      | Some rest \<Rightarrow>
          if takeWhile plain_id_char rest \<noteq> []
             \<and> dropWhile plain_id_char rest = '',user_id.is.null''
          then Some (takeWhile plain_id_char rest)
          else None)"

text \<open>
  How the store reads an argument of \<open>or\<close>. The template filled with a plain user id
  is the two alternatives it spells: the \<open>user_id\<close> of the row is that user, or it is
  null. Of any other argument, one with a spliced comma or parenthesis for instance,
  the model says nothing of its own: the parser of the store decides.
\<close>

definition read_or :: "services \<Rightarrow> string \<Rightarrow> (memory \<Rightarrow> bool) option" where
  "read_or sv str =
     (case user_of_or str of
        Some u \<Rightarrow> Some (\<lambda>m. user_id m = Some u \<or> user_id m = None)
      | None \<Rightarrow> or_parser sv str)"

text \<open>
  Rows are sorted on the list of their order terms, compared lexicographically; a
  descending term is the negated column. The sort is stable: rows equal on every
  term keep the order of the table.
\<close>

fun order_term :: "mem_order \<Rightarrow> memory \<Rightarrow> real" where
  "order_term Importance_desc m = - importance m"
| "order_term Created_at_desc m = - real_of_int (created_at m)"

definition order_key :: "mem_order list \<Rightarrow> memory \<Rightarrow> real list" where
  "order_key os m = map (\<lambda>t. order_term t m) os"

text \<open>\<open>limit(n)\<close>: the first \<open>n\<close> rows; the request is refused when \<open>n\<close> is negative.\<close>

definition apply_limit :: "int option \<Rightarrow> 'a list \<Rightarrow> db_error + 'a list" where
  "apply_limit l rows =
     (case l of
        None \<Rightarrow> Inr rows
      | Some n \<Rightarrow> if n < 0 then Inl RangeNotSatisfiable else Inr (take (nat n) rows))"

text \<open>
  \<open>select()\<close>: a request with an argument of \<open>or\<close> that the store cannot read is
  refused.
\<close>

definition select_memories :: "services \<Rightarrow> store \<Rightarrow> mem_query \<Rightarrow> db_error + memory list" where
  "select_memories sv s q =
     (case fault s of
        Some e \<Rightarrow> Inl e
      | None \<Rightarrow>
          (case those (map (read_or sv) (q_or q)) of
             None \<Rightarrow> Inl BadRequest
           | Some conditions \<Rightarrow>
               apply_limit (q_limit q)
                 (sort_key (order_key (q_orders q))
                    (filter (\<lambda>m. matches (q_filters q) m \<and> list_all (\<lambda>p. p m) conditions)
                       (memories s)))))"

text \<open>\<open>delete()\<close> with filters: every row on which all the filters hold is removed.\<close>

definition delete_memories :: "store \<Rightarrow> mem_filter list \<Rightarrow> (db_error + unit) \<times> store" where
  "delete_memories s fs =
     (case fault s of
        Some e \<Rightarrow> (Inl e, s)
      | None \<Rightarrow> (Inr (), s\<lparr>memories := filter (\<lambda>m. \<not> matches fs m) (memories s)\<rparr>))"

text \<open>\<open>if (error) throw error; return data\<close>.\<close>

definition throw_on_error :: "db_error + 'a \<Rightarrow> error + 'a" where
  "throw_on_error r = (case r of Inl e \<Rightarrow> Inl (StoreError e) | Inr x \<Rightarrow> Inr x)"

section \<open>Database functions\<close>

text \<open>
  Modelled from the spec: the similarity of a stored memory to a query vector, which
  the vector index of the store computes and whose SQL is not among the sources. A
  memory with no embedding has none.
\<close>

definition similarity_to :: "services \<Rightarrow> vector \<Rightarrow> memory \<Rightarrow> real option" where
  "similarity_to sv qv m = (case embedding m of None \<Rightarrow> None | Some v \<Rightarrow> Some (similarity sv qv v))"

text \<open>
  Modelled from the spec: the threshold test of the vector-similarity retrieval. A
  candidate qualifies when its similarity to the query vector is at least the
  threshold; a memory with no embedding never does.
\<close>

definition similar_enough :: "services \<Rightarrow> vector \<Rightarrow> real \<Rightarrow> memory \<Rightarrow> bool" where
  "similar_enough sv qv threshold m =
     (case similarity_to sv qv m of None \<Rightarrow> False | Some x \<Rightarrow> threshold \<le> x)"

text \<open>
  Modelled from the spec: the vector-similarity retrieval behind
  \<open>findSimilarMemories\<close>. It returns the candidates that qualify, ordered by similarity
  descending, capped at the count.
\<close>

definition vector_search :: "services \<Rightarrow> vector \<Rightarrow> real \<Rightarrow> int \<Rightarrow> memory list \<Rightarrow> memory list" where
  "vector_search sv qv threshold count rows =
     take (nat count)
       (sort_key (\<lambda>m. - (case similarity_to sv qv m of None \<Rightarrow> 0 | Some x \<Rightarrow> x))
          (filter (similar_enough sv qv threshold) rows))"

text \<open>
  Modelled from the spec: the candidates of the database function \<open>match_memories\<close>,
  whose SQL is not among the sources. They are the rows of the agent, restricted, for
  each filter that is given, to the rows whose \<open>user_id\<close> equals the filter or is null,
  whose \<open>category\<close> equals the filter, and whose \<open>importance\<close> is at least the filter.
\<close>

definition match_candidate :: "match_args \<Rightarrow> memory \<Rightarrow> bool" where
  "match_candidate a m =
     (agent_id m = p_agent_id a
      \<and> (case p_user_id a of None \<Rightarrow> True | Some u \<Rightarrow> user_id m = Some u \<or> user_id m = None)
      \<and> (case p_category a of None \<Rightarrow> True | Some c \<Rightarrow> category m = Some c)
      \<and> (case p_min_importance a of None \<Rightarrow> True | Some x \<Rightarrow> x \<le> importance m))"

text \<open>
  Modelled from the spec: the order of the result of the semantic path of \<open>recall\<close>,
  by similarity descending, ties broken by importance descending, then by
  \<open>created_at\<close> descending.
\<close>

definition semantic_key :: "services \<Rightarrow> vector \<Rightarrow> memory \<Rightarrow> real list" where
  "semantic_key sv qv m =
     [- (case similarity_to sv qv m of None \<Rightarrow> 0 | Some x \<Rightarrow> x),
      - importance m,
      - real_of_int (created_at m)]"

text \<open>
  Modelled from the spec: the database function \<open>match_memories\<close> behind the semantic
  path of \<open>recall\<close>. It returns the candidates whose similarity to the query vector is
  at least the threshold, in the order of the semantic path, capped at the count.
\<close>

definition match_memories :: "services \<Rightarrow> store \<Rightarrow> match_args \<Rightarrow> db_error + memory list" where
  "match_memories sv s a =
     (case fault s of
        Some e \<Rightarrow> Inl e
      | None \<Rightarrow>
          Inr (take (nat (match_count a))
                 (sort_key (semantic_key sv (query_embedding a))
                    (filter (similar_enough sv (query_embedding a) (match_threshold a))
                       (filter (match_candidate a) (memories s))))))"

text \<open>
  Modelled from the spec: the database function \<open>find_similar_memories\<close>. It looks up
  the stored embedding of the referenced memory, fails with \<open>NotFound\<close> if the memory
  does not exist or has no embedding, and otherwise performs the vector-similarity
  retrieval, with that embedding as query vector, over the other memories of the same
  agent.
\<close>

definition find_similar_memories :: "services \<Rightarrow> store \<Rightarrow> similar_args \<Rightarrow> db_error + memory list" where
  "find_similar_memories sv s a =
     (case fault s of
        Some e \<Rightarrow> Inl e
      | None \<Rightarrow>
          (case find (\<lambda>m. mem_id m = s_memory_id a) (memories s) of
             None \<Rightarrow> Inl NotFound
           | Some src \<Rightarrow>
               (case embedding src of
                  None \<Rightarrow> Inl NotFound
                | Some qv \<Rightarrow>
                    Inr (vector_search sv qv (s_match_threshold a) (s_match_count a)
                           (filter (\<lambda>m. agent_id m = agent_id src \<and> mem_id m \<noteq> s_memory_id a)
                              (memories s))))))"

text \<open>
  The database function \<open>hybrid_search_memories\<close> is a parameter: the request fails on
  a failed connection and is otherwise answered by the function on the table.
\<close>

definition rpc_hybrid_search_memories :: "services \<Rightarrow> store \<Rightarrow> hybrid_args \<Rightarrow> db_error + memory list" where
  "rpc_hybrid_search_memories sv s a =
     (case fault s of Some e \<Rightarrow> Inl e | None \<Rightarrow> hybrid_search_memories sv a (memories s))"

section \<open>recall, hybridRecall, forget, findSimilarMemories\<close>

text \<open>
  The request of the keyword path of \<open>recall\<close>, built in the order of the source: the
  agent, the two order terms and the limit first, then one filter for each truthy
  option, then the \<open>ilike\<close> pattern.
\<close>

definition add_filter :: "mem_filter \<Rightarrow> mem_query \<Rightarrow> mem_query" where
  "add_filter f q = q\<lparr>q_filters := q_filters q @ [f]\<rparr>"

definition add_or :: "string \<Rightarrow> mem_query \<Rightarrow> mem_query" where
  "add_or str q = q\<lparr>q_or := q_or q @ [str]\<rparr>"

definition keyword_query :: "config \<Rightarrow> string \<Rightarrow> recall_opts \<Rightarrow> mem_query" where
  "keyword_query c query opts =
     (let q = \<lparr> q_filters = [Eq_agent_id (agentId c)],
                q_or = [],
                q_orders = [Importance_desc, Created_at_desc],
                q_limit = Some (or_default (opt_limit opts) 10) \<rparr>;
          q = if_string (opt_userId opts) (\<lambda>u. add_or (user_or u)) q;
          q = if_string (opt_category opts) (\<lambda>cat. add_filter (Eq_category cat)) q;
          q = if_number (opt_minImportance opts) (\<lambda>x. add_filter (Gte_importance x)) q
      in add_filter (Ilike_content (''%'' @ query @ ''%'')) q)"

definition recall :: "services \<Rightarrow> config \<Rightarrow> store \<Rightarrow> string \<Rightarrow> recall_opts \<Rightarrow> error + memory list" where
  "recall sv c s query opts =
     (case generateEmbedding sv c query of
        Inl e \<Rightarrow> Inl e
      | Inr (Some queryEmbedding) \<Rightarrow>
          throw_on_error
            (match_memories sv s
               \<lparr> query_embedding = queryEmbedding,
                 match_threshold = nullish (opt_minSimilarity opts) 0.7,
                 match_count = or_default (opt_limit opts) 10,
                 p_agent_id = agentId c,
                 p_user_id = opt_userId opts,
                 p_category = opt_category opts,
                 p_min_importance = opt_minImportance opts \<rparr>)
      | Inr None \<Rightarrow> throw_on_error (select_memories sv s (keyword_query c query opts)))"

definition hybridRecall :: "services \<Rightarrow> config \<Rightarrow> store \<Rightarrow> string \<Rightarrow> recall_opts \<Rightarrow> error + memory list" where
  "hybridRecall sv c s query opts =
     (let vectorWeight = nullish (opt_vectorWeight opts) 0.7;
          keywordWeight = nullish (opt_keywordWeight opts) 0.3
      in case generateEmbedding sv c query of
           Inl e \<Rightarrow> Inl e
         | Inr (Some queryEmbedding) \<Rightarrow>
             throw_on_error
               (rpc_hybrid_search_memories sv s
                  \<lparr> h_query_embedding = queryEmbedding,
                    h_query_text = query,
                    h_vector_weight = vectorWeight,
                    h_keyword_weight = keywordWeight,
                    h_match_count = or_default (opt_limit opts) 10,
                    h_agent_id = agentId c,
                    h_user_id = opt_userId opts,
                    h_category = opt_category opts,
                    h_min_importance = opt_minImportance opts \<rparr>)
         | Inr None \<Rightarrow> recall sv c s query opts)"

definition forget :: "config \<Rightarrow> store \<Rightarrow> string \<Rightarrow> (error + unit) \<times> store" where
  "forget c s memoryId =
     (case delete_memories s [Eq_id memoryId] of
        (Inl e, s') \<Rightarrow> (Inl (StoreError e), s')
      | (Inr u, s') \<Rightarrow> (Inr u, s'))"

definition findSimilarMemories ::
  "services \<Rightarrow> config \<Rightarrow> store \<Rightarrow> string \<Rightarrow> similar_opts \<Rightarrow> error + memory list" where
  "findSimilarMemories sv c s memoryId opts =
     throw_on_error
       (find_similar_memories sv s
          \<lparr> s_memory_id = memoryId,
            s_match_threshold = nullish (so_minSimilarity opts) 0.8,
            s_match_count = or_default (so_limit opts) 5 \<rparr>)"

section \<open>getMessages and getContext\<close>

text \<open>
  \<open>range(from, to)\<close> asks for the rows at the positions \<open>from\<close> to \<open>to\<close>: an offset of
  \<open>from\<close> and a limit of \<open>to - from + 1\<close>.
\<close>

definition select_messages :: "store \<Rightarrow> string \<Rightarrow> int \<Rightarrow> int \<Rightarrow> db_error + message list" where
  "select_messages s sessionId from to =
     (case fault s of
        Some e \<Rightarrow> Inl e
      | None \<Rightarrow>
          if from < 0 then Inl RangeNotSatisfiable
          else apply_limit (Some (to - from + 1))
                 (drop (nat from)
                    (sort_key msg_created_at (filter (\<lambda>m. session_id m = sessionId) (messages s)))))"

definition getMessages :: "store \<Rightarrow> string \<Rightarrow> messages_opts \<Rightarrow> error + message list" where
  "getMessages s sessionId opts =
     throw_on_error
       (select_messages s sessionId (or_default (mo_offset opts) 0)
          (or_default (mo_offset opts) 0 + or_default (mo_limit opts) 100 - 1))"

text \<open>\<open>Array.prototype.join\<close>.\<close>

fun join_with :: "string \<Rightarrow> string list \<Rightarrow> string" where
  "join_with sep [] = []"
| "join_with sep [x] = x"
| "join_with sep (x # y # ys) = x @ sep @ join_with sep (y # ys)"

definition getContext ::
  "services \<Rightarrow> config \<Rightarrow> store \<Rightarrow> string \<Rightarrow> context_opts \<Rightarrow> error + context_payload" where
  "getContext sv c s query opts =
     (case recall sv c s query
             \<lparr> opt_userId = ctx_userId opts, opt_category = None,
               opt_limit = Some (or_default (maxMemories opts) 5),
               opt_minImportance = None, opt_minSimilarity = None,
               opt_vectorWeight = None, opt_keywordWeight = None \<rparr> of
        Inl e \<Rightarrow> Inl e
      | Inr mems \<Rightarrow>
          (case if_string (ctx_sessionId opts)
                  (\<lambda>sid _. getMessages s sid
                              \<lparr> mo_limit = Some (or_default (maxMessages opts) 20), mo_offset = None \<rparr>)
                  (Inr []) of
             Inl e \<Rightarrow> Inl e
           | Inr recent \<Rightarrow>
               (let memoryText = join_with [CHR 0x0A] (map (\<lambda>m. ''- '' @ content m) mems);
                    text = (if length mems > 0
                            then ''Relevant memories:'' @ [CHR 0x0A] @ memoryText
                            else ''No relevant memories found.'')
                in Inr \<lparr> ctx_memories = mems, recentMessages = recent, summary = text \<rparr>)))"

section \<open>Example data\<close>

text \<open>
  The two memories of the scenarios of the specification, a memory of another agent, a
  memory with a negative importance, and six memories that differ in their identity
  and age only, the newest first.
\<close>

definition memory_A :: memory where
  "memory_A =
     \<lparr> mem_id = ''a'', agent_id = ''agent-1'', user_id = None, category = Some ''preference'',
       content = ''prefers TypeScript'', importance = 0.9, source_session_id = None,
       created_at = 1, updated_at = 1, expires_at = None, embedding = Some [1, 0],
       metadata = [] \<rparr>"

definition memory_B :: memory where
  "memory_B =
     \<lparr> mem_id = ''b'', agent_id = ''agent-1'', user_id = Some ''u1'', category = Some ''preference'',
       content = ''likes coffee'', importance = 0.2, source_session_id = None,
       created_at = 2, updated_at = 2, expires_at = None, embedding = Some [1, 0],
       metadata = [] \<rparr>"

definition memory_C :: memory where
  "memory_C =
     \<lparr> mem_id = ''c'', agent_id = ''agent-2'', user_id = None, category = None,
       content = ''uses TypeScript at work'', importance = 0.5, source_session_id = None,
       created_at = 3, updated_at = 3, expires_at = None, embedding = None,
       metadata = [] \<rparr>"

definition memory_D :: memory where
  "memory_D =
     \<lparr> mem_id = ''d'', agent_id = ''agent-1'', user_id = None, category = None,
       content = ''obsolete note'', importance = - 1, source_session_id = None,
       created_at = 4, updated_at = 4, expires_at = None, embedding = None,
       metadata = [] \<rparr>"

definition fact :: "string \<Rightarrow> timestamp \<Rightarrow> memory" where
  "fact i t =
     \<lparr> mem_id = i, agent_id = ''agent-1'', user_id = None, category = None,
       content = ''fact'', importance = 0.5, source_session_id = None,
       created_at = t, updated_at = t, expires_at = None, embedding = None,
       metadata = [] \<rparr>"

definition six_facts :: "memory list" where
  "six_facts =
     [fact ''f1'' 6, fact ''f2'' 5, fact ''f3'' 4, fact ''f4'' 3, fact ''f5'' 2, fact ''f6'' 1]"

text \<open>
  A call of \<open>remember\<close> that gives the content only, the values the database
  generates for its row, and the row that results for the agent \<open>agent-1\<close>.
\<close>

definition tea_input :: remember_input where
  "tea_input =
     \<lparr> in_content = ''likes tea'', in_category = None, in_importance = None, in_userId = None,
       in_sessionId = None, in_expiresAt = None, in_metadata = None \<rparr>"

definition fresh_row :: db_defaults where
  "fresh_row = \<lparr> new_id = ''e'', now = 5 \<rparr>"

definition memory_E :: memory where
  "memory_E =
     \<lparr> mem_id = ''e'', agent_id = ''agent-1'', user_id = None, category = None,
       content = ''likes tea'', importance = 0.5, source_session_id = None,
       created_at = 5, updated_at = 5, expires_at = None, embedding = None,
       metadata = [] \<rparr>"

definition table :: "memory list \<Rightarrow> store" where
  "table ms = \<lparr> memories = ms, messages = [], fault = None \<rparr>"

text \<open>The same table behind a connection that fails.\<close>

definition broken_table :: "memory list \<Rightarrow> store" where
  "broken_table ms = \<lparr> memories = ms, messages = [], fault = Some ConnectionFailure \<rparr>"

text \<open>
  Two configurations of the engine for the agent \<open>agent-1\<close>: one with no embedding
  provider, one with the provider \<open>voyage\<close>; and a third for the provider \<open>openai\<close>
  with a key.
\<close>

definition keyword_config :: config where
  "keyword_config =
     \<lparr> agentId = ''agent-1'', embeddingProvider = None, openaiApiKey = None,
       embeddingModel = None \<rparr>"

definition voyage_config :: config where
  "voyage_config = keyword_config\<lparr>embeddingProvider := Some Voyage\<rparr>"

definition openai_config :: config where
  "openai_config = keyword_config\<lparr>embeddingProvider := Some OpenAI, openaiApiKey := Some ''sk''\<rparr>"

text \<open>
  Collaborators for the examples: every text has the embedding \<open>[1, 0]\<close>, two vectors
  have similarity 1 when they are equal and 0 otherwise, the hybrid search returns
  the first rows of the table, and the store refuses every argument of \<open>or\<close> that is
  not the template filled with a plain user id.
\<close>

definition example_services :: services where
  "example_services =
     \<lparr> openai_embeddings_create = (\<lambda>key model text. Inr [1, 0]),
       similarity = (\<lambda>u v. if u = v then 1 else 0),
       hybrid_search_memories = (\<lambda>a rows. Inr (take (nat (h_match_count a)) rows)),
       or_parser = (\<lambda>str. None) \<rparr>"

definition no_opts :: recall_opts where
  "no_opts =
     \<lparr> opt_userId = None, opt_category = None, opt_limit = None, opt_minImportance = None,
       opt_minSimilarity = None, opt_vectorWeight = None, opt_keywordWeight = None \<rparr>"

text \<open>Options in which every filter is given: a user, a category, a minimum importance
  and a limit.\<close>

definition filtering_opts :: recall_opts where
  "filtering_opts =
     \<lparr> opt_userId = Some ''u1'', opt_category = Some ''preference'', opt_limit = Some 2,
       opt_minImportance = Some 0.1, opt_minSimilarity = None, opt_vectorWeight = None,
       opt_keywordWeight = None \<rparr>"

definition no_context_opts :: context_opts where
  "no_context_opts =
     \<lparr> ctx_userId = None, ctx_sessionId = None, maxMemories = None, maxMessages = None \<rparr>"

section \<open>Basic facts\<close>

lemmas example_defs =
  memory_A_def memory_B_def memory_C_def memory_D_def memory_E_def tea_input_def
  fresh_row_def fact_def six_facts_def table_def keyword_config_def
  voyage_config_def openai_config_def example_services_def no_opts_def no_context_opts_def

lemmas keyword_path_defs =
  recall_def generateEmbedding_def select_memories_def keyword_query_def if_string_def
  if_number_def add_filter_def add_or_def user_or_def read_or_def user_of_or_def
  plain_id_char_def or_default_def apply_limit_def throw_on_error_def matches_def
  ilike_def order_key_def lower_char_def

lemmas semantic_path_defs =
  recall_def generateEmbedding_def openai_def or_default_string_def match_memories_def
  match_candidate_def semantic_key_def similar_enough_def similarity_to_def nullish_def
  or_default_def throw_on_error_def

lemmas similar_path_defs =
  findSimilarMemories_def find_similar_memories_def throw_on_error_def vector_search_def
  similar_enough_def similarity_to_def nullish_def or_default_def

lemma generateEmbedding_unavailable:
  "embeddingProvider c = None \<or> embeddingProvider c = Some NoProvider \<Longrightarrow>
   generateEmbedding sv c text = Inr None"
  by (auto simp: generateEmbedding_def)

lemma generateEmbedding_voyage:
  "embeddingProvider c = Some Voyage \<Longrightarrow> generateEmbedding sv c text = Inl VoyageNotImplemented"
  by (simp add: generateEmbedding_def)

lemma generateEmbedding_missing_key:
  "embeddingProvider c = Some OpenAI \<Longrightarrow> openai c = None \<Longrightarrow>
   generateEmbedding sv c text = Inl OpenAIKeyNotProvided"
  by (simp add: generateEmbedding_def)

section \<open>Patterns\<close>

text \<open>
  A leading \<open>%\<close> lets the rest of the pattern match any suffix of the text; a pattern
  of plain characters matches a prefix of the text up to the case of letters. So the
  pattern \<open>%q%\<close> of a plain query \<open>q\<close> is a case-insensitive substring test.
\<close>

lemma like_percent_iff:
  "like (CHR ''%'' # r) s \<longleftrightarrow> (\<exists>a b. s = a @ b \<and> like r b)"
proof (induction s)
  case Nil
  then show ?case by simp
next
  case (Cons x xs)
  have "like (CHR ''%'' # r) (x # xs) \<longleftrightarrow> like r (x # xs) \<or> like (CHR ''%'' # r) xs"
    by simp
  also have "\<dots> \<longleftrightarrow> like r (x # xs) \<or> (\<exists>a b. xs = a @ b \<and> like r b)"
    using Cons.IH by simp
  also have "\<dots> \<longleftrightarrow> (\<exists>a b. x # xs = a @ b \<and> like r b)"
    by (auto simp: Cons_eq_append_conv)
  finally show ?case .
qed

lemma like_percent_only: "like ''%'' s"
  by (induction s) simp_all

lemma like_percent_percent: "like ''%%'' s"
proof -
  have "\<exists>a b. s = a @ b \<and> like ''%'' b"
    using like_percent_only [of s] by (intro exI [of _ "[]"] exI [of _ s]) simp
  then show ?thesis
    by (simp only: like_percent_iff [of "''%''" s])
qed

lemma like_plain_prefix:
  "list_all plain_char p \<Longrightarrow>
   like (p @ r) s \<longleftrightarrow> (\<exists>a b. s = a @ b \<and> map lower_char a = map lower_char p \<and> like r b)"
proof (induction p arbitrary: s)
  case Nil
  then show ?case by simp
next
  case (Cons x p)
  then have px: "plain_char x" and p: "list_all plain_char p"
    by simp_all
  from px have x: "x \<noteq> CHR ''%''" "x \<noteq> CHR ''_''" "x \<noteq> CHR 0x5C"
    by (simp_all add: plain_char_def)
  show ?case
  proof (cases s)
    case Nil
    then show ?thesis using x by simp
  next
    case (Cons ch cs)
    have "like ((x # p) @ r) (ch # cs) \<longleftrightarrow> lower_char x = lower_char ch \<and> like (p @ r) cs"
      using x by simp
    also have "\<dots> \<longleftrightarrow> lower_char x = lower_char ch
        \<and> (\<exists>a b. cs = a @ b \<and> map lower_char a = map lower_char p \<and> like r b)"
      using Cons.IH [OF p] by simp
    also have "\<dots> \<longleftrightarrow> (\<exists>a b. ch # cs = a @ b \<and> map lower_char a = map lower_char (x # p) \<and> like r b)"
    proof (intro iffI)
      assume "lower_char x = lower_char ch
        \<and> (\<exists>a b. cs = a @ b \<and> map lower_char a = map lower_char p \<and> like r b)"
      then obtain a b where "lower_char x = lower_char ch" "cs = a @ b"
          "map lower_char a = map lower_char p" "like r b"
        by blast
      then have "ch # cs = (ch # a) @ b \<and> map lower_char (ch # a) = map lower_char (x # p) \<and> like r b"
        by simp
      then show "\<exists>a b. ch # cs = a @ b \<and> map lower_char a = map lower_char (x # p) \<and> like r b"
        by blast
    next
      assume "\<exists>a b. ch # cs = a @ b \<and> map lower_char a = map lower_char (x # p) \<and> like r b"
      then obtain a b where ab: "ch # cs = a @ b" "map lower_char a = map lower_char (x # p)" "like r b"
        by blast
      from ab(2) obtain h t where a: "a = h # t" by (cases a) auto
      with ab have "h = ch" "cs = t @ b" "lower_char x = lower_char ch" "map lower_char t = map lower_char p"
        by auto
      with ab(3) show "lower_char x = lower_char ch
        \<and> (\<exists>a b. cs = a @ b \<and> map lower_char a = map lower_char p \<and> like r b)"
        by blast
    qed
    finally show ?thesis using Cons by simp
  qed
qed

lemma ilike_substring:
  assumes "list_all plain_char query"
  shows "ilike (''%'' @ query @ ''%'') text
         \<longleftrightarrow> sublist (map lower_char query) (map lower_char text)"
proof -
  have m: "map (\<lambda>ch. if ch = CHR ''*'' then CHR ''%'' else ch) query = query"
    using assms by (induction query) (auto simp: plain_char_def)
  have "ilike (''%'' @ query @ ''%'') text \<longleftrightarrow> like (CHR ''%'' # query @ ''%'') text"
    by (simp add: ilike_def m)
  also have "\<dots> \<longleftrightarrow> (\<exists>a b. text = a @ b \<and> like (query @ ''%'') b)"
    by (rule like_percent_iff)
  also have "\<dots> \<longleftrightarrow> (\<exists>a b. text = a @ b
      \<and> (\<exists>mid e. b = mid @ e \<and> map lower_char mid = map lower_char query \<and> like ''%'' e))"
    by (simp only: like_plain_prefix [OF assms])
  also have "\<dots> \<longleftrightarrow> (\<exists>a mid e. text = a @ mid @ e \<and> map lower_char mid = map lower_char query)"
    by (auto simp: like_percent_only simp del: like.simps)
  also have "\<dots> \<longleftrightarrow> sublist (map lower_char query) (map lower_char text)"
    unfolding sublist_def
  proof
    assume "\<exists>a mid e. text = a @ mid @ e \<and> map lower_char mid = map lower_char query"
    then obtain a mid e where "text = a @ mid @ e" "map lower_char mid = map lower_char query"
      by blast
    then have "map lower_char text = map lower_char a @ map lower_char query @ map lower_char e"
      by simp
    then show "\<exists>ps ss. map lower_char text = ps @ map lower_char query @ ss" by blast
  next
    assume "\<exists>ps ss. map lower_char text = ps @ map lower_char query @ ss"
    then obtain ps ss where h: "map lower_char text = ps @ map lower_char query @ ss" by blast
    then obtain a rest where a: "text = a @ rest" "ps = map lower_char a"
        "map lower_char query @ ss = map lower_char rest"
      by (auto simp: map_eq_append_conv)
    from a(3) obtain mid e where "rest = mid @ e" "map lower_char mid = map lower_char query"
      by (auto simp: append_eq_map_conv)
    with a show "\<exists>a mid e. text = a @ mid @ e \<and> map lower_char mid = map lower_char query"
      by blast
  qed
  finally show ?thesis .
qed

section \<open>The keyword request\<close>

lemma strip_prefix_append: "strip_prefix p (p @ s) = Some s"
  by (induction p) simp_all

lemma comma_not_plain: "\<not> plain_id_char CHR '',''"
  by (simp add: plain_id_char_def)

lemma user_of_or_plain:
  assumes "u \<noteq> []" and "list_all plain_id_char u"
  shows "user_of_or (user_or u) = Some u"
proof -
  have s: "strip_prefix ''user_id.eq.'' (user_or u) = Some (u @ '',user_id.is.null'')"
    unfolding user_or_def by (rule strip_prefix_append)
  have p: "\<And>x. x \<in> set u \<Longrightarrow> plain_id_char x"
    using assms(2) by (simp add: list_all_iff)
  have t: "takeWhile plain_id_char (u @ '',user_id.is.null'') = u"
    using p by (simp add: takeWhile_append2 comma_not_plain)
  have d: "dropWhile plain_id_char (u @ '',user_id.is.null'') = '',user_id.is.null''"
    using p by (simp add: dropWhile_append2 comma_not_plain)
  show ?thesis
    using assms(1) by (simp add: user_of_or_def s t d)
qed

lemma read_or_plain:
  assumes "u \<noteq> []" and "list_all plain_id_char u"
  shows "read_or sv (user_or u) = Some (\<lambda>m. user_id m = Some u \<or> user_id m = None)"
  by (simp add: read_or_def user_of_or_plain [OF assms])

lemma matches_keyword_query:
  "matches (q_filters (keyword_query c query opts)) m \<longleftrightarrow>
     agent_id m = agentId c
     \<and> (\<forall>cat. opt_category opts = Some cat \<and> cat \<noteq> [] \<longrightarrow> category m = Some cat)
     \<and> (\<forall>x. opt_minImportance opts = Some x \<and> x \<noteq> 0 \<longrightarrow> x \<le> importance m)
     \<and> ilike (''%'' @ query @ ''%'') (content m)"
  by (auto simp: keyword_query_def matches_def if_string_def if_number_def add_filter_def
      add_or_def Let_def split: option.splits)

lemma keyword_query_orders_limit:
  "q_orders (keyword_query c query opts) = [Importance_desc, Created_at_desc]"
  "q_limit (keyword_query c query opts) = Some (or_default (opt_limit opts) 10)"
  by (auto simp: keyword_query_def if_string_def if_number_def add_filter_def add_or_def Let_def
      split: option.splits)

lemma keyword_query_or:
  "q_or (keyword_query c query opts) =
     (case opt_userId opts of None \<Rightarrow> [] | Some u \<Rightarrow> if u = [] then [] else [user_or u])"
  by (auto simp: keyword_query_def if_string_def if_number_def add_filter_def add_or_def Let_def
      split: option.splits)

lemma keyword_conditions_plain:
  assumes "\<forall>u. opt_userId opts = Some u \<longrightarrow> list_all plain_id_char u"
  shows "those (map (read_or sv) (q_or (keyword_query c query opts))) =
           Some (case opt_userId opts of
                   None \<Rightarrow> []
                 | Some u \<Rightarrow> if u = [] then []
                             else [\<lambda>m. user_id m = Some u \<or> user_id m = None])"
  using assms by (auto simp: keyword_query_or read_or_plain split: option.splits)

lemma order_key_le:
  "order_key [Importance_desc, Created_at_desc] a \<le> order_key [Importance_desc, Created_at_desc] b
   \<longleftrightarrow> importance b < importance a \<or> (importance a = importance b \<and> created_at b \<le> created_at a)"
  by (auto simp: order_key_def)

lemma sorted_recall_order:
  "sorted_wrt (\<lambda>a b. importance b < importance a \<or> (importance a = importance b \<and> created_at b \<le> created_at a))
     (take n (sort_key (order_key [Importance_desc, Created_at_desc]) xs))"
proof -
  have "sorted (map (order_key [Importance_desc, Created_at_desc])
          (sort_key (order_key [Importance_desc, Created_at_desc]) xs))"
    by (rule sorted_sort_key)
  then have "sorted_wrt (\<lambda>a b. order_key [Importance_desc, Created_at_desc] a
                \<le> order_key [Importance_desc, Created_at_desc] b)
          (sort_key (order_key [Importance_desc, Created_at_desc]) xs)"
    by (simp add: sorted_map)
  then have "sorted_wrt (\<lambda>a b. importance b < importance a \<or> (importance a = importance b \<and> created_at b \<le> created_at a))
          (sort_key (order_key [Importance_desc, Created_at_desc]) xs)"
    by (simp only: order_key_le)
  then show ?thesis by (rule sorted_wrt_take)
qed

section \<open>The two paths of recall\<close>

lemma recall_keyword_path:
  assumes "generateEmbedding sv c query = Inr None"
  shows "recall sv c s query opts =
           throw_on_error (select_memories sv s (keyword_query c query opts))"
  using assms by (simp add: recall_def)

lemma recall_semantic_request:
  assumes "generateEmbedding sv c query = Inr (Some qe)"
  shows "recall sv c s query opts =
           throw_on_error
             (match_memories sv s
                \<lparr> query_embedding = qe,
                  match_threshold = nullish (opt_minSimilarity opts) 0.7,
                  match_count = or_default (opt_limit opts) 10,
                  p_agent_id = agentId c,
                  p_user_id = opt_userId opts,
                  p_category = opt_category opts,
                  p_min_importance = opt_minImportance opts \<rparr>)"
  using assms by (simp add: recall_def)

lemma hybridRecall_semantic_request:
  assumes "generateEmbedding sv c query = Inr (Some qe)"
  shows "hybridRecall sv c s query opts =
           throw_on_error
             (rpc_hybrid_search_memories sv s
                \<lparr> h_query_embedding = qe,
                  h_query_text = query,
                  h_vector_weight = nullish (opt_vectorWeight opts) 0.7,
                  h_keyword_weight = nullish (opt_keywordWeight opts) 0.3,
                  h_match_count = or_default (opt_limit opts) 10,
                  h_agent_id = agentId c,
                  h_user_id = opt_userId opts,
                  h_category = opt_category opts,
                  h_min_importance = opt_minImportance opts \<rparr>)"
  using assms by (simp add: hybridRecall_def)

lemma hybridRecall_keyword_path:
  assumes "generateEmbedding sv c query = Inr None"
  shows "hybridRecall sv c s query opts =
           throw_on_error (select_memories sv s (keyword_query c query opts))"
  using assms by (simp add: hybridRecall_def recall_def)

lemma select_keyword_rows:
  assumes "select_memories sv s (keyword_query c query opts) = Inr rows"
  shows "\<exists>conditions.
           those (map (read_or sv) (q_or (keyword_query c query opts))) = Some conditions
           \<and> rows = take (nat (or_default (opt_limit opts) 10))
                  (sort_key (order_key [Importance_desc, Created_at_desc])
                     (filter (\<lambda>m. matches (q_filters (keyword_query c query opts)) m
                                  \<and> list_all (\<lambda>p. p m) conditions)
                        (memories s)))"
  using assms
  by (auto simp: select_memories_def apply_limit_def keyword_query_orders_limit
      split: option.splits if_splits)

lemma select_keyword_length:
  assumes "select_memories sv s (keyword_query c query opts) = Inr rows"
  shows "length rows \<le> nat (or_default (opt_limit opts) 10)"
  using select_keyword_rows [OF assms] by auto

lemma select_keyword_matches:
  assumes "select_memories sv s (keyword_query c query opts) = Inr rows" and "m \<in> set rows"
  shows "matches (q_filters (keyword_query c query opts)) m"
  using select_keyword_rows [OF assms(1)] assms(2) by (auto dest: in_set_takeD)

lemma select_keyword_user:
  assumes "select_memories sv s (keyword_query c query opts) = Inr rows" and "m \<in> set rows"
    and "opt_userId opts = Some u" and "u \<noteq> []" and "list_all plain_id_char u"
  shows "user_id m = Some u \<or> user_id m = None"
proof -
  from select_keyword_rows [OF assms(1)] obtain conditions where
    c: "those (map (read_or sv) (q_or (keyword_query c query opts))) = Some conditions"
    and r: "rows = take (nat (or_default (opt_limit opts) 10))
                  (sort_key (order_key [Importance_desc, Created_at_desc])
                     (filter (\<lambda>m. matches (q_filters (keyword_query c query opts)) m
                                  \<and> list_all (\<lambda>p. p m) conditions)
                        (memories s)))"
    by auto
  from c assms(3,4) have "conditions = [\<lambda>m. user_id m = Some u \<or> user_id m = None]"
    by (simp add: keyword_query_or read_or_plain [OF assms(4,5)])
  with r assms(2) show ?thesis
    by (auto dest: in_set_takeD)
qed

lemma select_keyword_value:
  assumes "fault s = None" and "0 \<le> or_default (opt_limit opts) 10"
    and "\<forall>u. opt_userId opts = Some u \<longrightarrow> list_all plain_id_char u"
  shows "select_memories sv s (keyword_query c query opts) =
           Inr (take (nat (or_default (opt_limit opts) 10))
                  (sort_key (order_key [Importance_desc, Created_at_desc])
                     (filter (\<lambda>m. agent_id m = agentId c
                         \<and> (\<forall>u. opt_userId opts = Some u \<and> u \<noteq> [] \<longrightarrow>
                                user_id m = Some u \<or> user_id m = None)
                         \<and> (\<forall>cat. opt_category opts = Some cat \<and> cat \<noteq> [] \<longrightarrow>
                                category m = Some cat)
                         \<and> (\<forall>x. opt_minImportance opts = Some x \<and> x \<noteq> 0 \<longrightarrow> x \<le> importance m)
                         \<and> ilike (''%'' @ query @ ''%'') (content m))
                        (memories s))))"
proof -
  have p: "(\<lambda>m. matches (q_filters (keyword_query c query opts)) m
             \<and> list_all (\<lambda>p. p m)
                  (case opt_userId opts of
                     None \<Rightarrow> []
                   | Some u \<Rightarrow> if u = [] then []
                               else [\<lambda>m. user_id m = Some u \<or> user_id m = None]))
         = (\<lambda>m. agent_id m = agentId c
               \<and> (\<forall>u. opt_userId opts = Some u \<and> u \<noteq> [] \<longrightarrow>
                      user_id m = Some u \<or> user_id m = None)
               \<and> (\<forall>cat. opt_category opts = Some cat \<and> cat \<noteq> [] \<longrightarrow> category m = Some cat)
               \<and> (\<forall>x. opt_minImportance opts = Some x \<and> x \<noteq> 0 \<longrightarrow> x \<le> importance m)
               \<and> ilike (''%'' @ query @ ''%'') (content m))"
    by (rule ext) (auto simp: matches_keyword_query split: option.splits)
  show ?thesis
    using assms(1,2)
    by (simp add: select_memories_def apply_limit_def keyword_query_orders_limit
        keyword_conditions_plain [OF assms(3)] p)
qed

lemma recall_semantic_path:
  assumes "generateEmbedding sv c query = Inr (Some qe)"
    and "recall sv c s query opts = Inr rows"
  shows "rows = take (nat (or_default (opt_limit opts) 10))
           (sort_key (semantic_key sv qe)
             (filter (similar_enough sv qe (nullish (opt_minSimilarity opts) 0.7))
               (filter (match_candidate
                     \<lparr> query_embedding = qe,
                       match_threshold = nullish (opt_minSimilarity opts) 0.7,
                       match_count = or_default (opt_limit opts) 10,
                       p_agent_id = agentId c,
                       p_user_id = opt_userId opts,
                       p_category = opt_category opts,
                       p_min_importance = opt_minImportance opts \<rparr>)
                  (memories s))))"
  using assms
  by (cases "fault s")
    (simp_all add: recall_def throw_on_error_def match_memories_def)

lemma match_candidate_filters:
  assumes "match_candidate a m"
  shows "agent_id m = p_agent_id a"
    and "p_user_id a = Some u \<Longrightarrow> user_id m = Some u \<or> user_id m = None"
    and "p_category a = Some cat \<Longrightarrow> category m = Some cat"
    and "p_min_importance a = Some x \<Longrightarrow> x \<le> importance m"
  using assms by (simp_all add: match_candidate_def)

section \<open>Limits\<close>

text \<open>
  C1 (as amended). The claim is that \<open>recall\<close> and \<open>hybridRecall\<close> return the empty
  sequence, and raise no error, when the supplied limit is at most 0. In the code a
  limit of 0 is falsy in \<open>opts.limit || 10\<close>: it is treated as no limit at all, so the
  call behaves exactly as the call with no limit and as the call with the limit 10, on
  every path of both strategies. Any other limit, a negative one included, is not
  normalised. It is the limit of the keyword request, which both operations send to
  the store when there is no embedding, and it is the \<open>match_count\<close> that \<open>recall\<close>
  hands to \<open>match_memories\<close> and \<open>hybridRecall\<close> to \<open>hybrid_search_memories\<close> when there
  is one. When there is no embedding, the store answers and the user id, if one is
  given, has plain characters only, a negative limit makes both operations throw the
  error with which the store refuses the range.
\<close>

theorem zero_limit_is_default_limit:
  "recall sv c s query (opts\<lparr>opt_limit := Some 0\<rparr>) = recall sv c s query (opts\<lparr>opt_limit := None\<rparr>)
   \<and> recall sv c s query (opts\<lparr>opt_limit := Some 0\<rparr>) = recall sv c s query (opts\<lparr>opt_limit := Some 10\<rparr>)
   \<and> hybridRecall sv c s query (opts\<lparr>opt_limit := Some 0\<rparr>)
       = hybridRecall sv c s query (opts\<lparr>opt_limit := None\<rparr>)
   \<and> hybridRecall sv c s query (opts\<lparr>opt_limit := Some 0\<rparr>)
       = hybridRecall sv c s query (opts\<lparr>opt_limit := Some 10\<rparr>)
   \<and> (n \<noteq> 0 \<longrightarrow> q_limit (keyword_query c query (opts\<lparr>opt_limit := Some n\<rparr>)) = Some n)
   \<and> (n \<noteq> 0 \<and> generateEmbedding sv c query = Inr None \<longrightarrow>
        recall sv c s query (opts\<lparr>opt_limit := Some n\<rparr>)
          = throw_on_error
              (select_memories sv s (keyword_query c query (opts\<lparr>opt_limit := Some n\<rparr>)))
        \<and> hybridRecall sv c s query (opts\<lparr>opt_limit := Some n\<rparr>)
          = throw_on_error
              (select_memories sv s (keyword_query c query (opts\<lparr>opt_limit := Some n\<rparr>))))
   \<and> (n \<noteq> 0 \<and> generateEmbedding sv c query = Inr (Some qe) \<longrightarrow>
        recall sv c s query (opts\<lparr>opt_limit := Some n\<rparr>)
          = throw_on_error
              (match_memories sv s
                 \<lparr> query_embedding = qe,
                   match_threshold = nullish (opt_minSimilarity opts) 0.7,
                   match_count = n,
                   p_agent_id = agentId c,
                   p_user_id = opt_userId opts,
                   p_category = opt_category opts,
                   p_min_importance = opt_minImportance opts \<rparr>)
        \<and> hybridRecall sv c s query (opts\<lparr>opt_limit := Some n\<rparr>)
          = throw_on_error
              (rpc_hybrid_search_memories sv s
                 \<lparr> h_query_embedding = qe,
                   h_query_text = query,
                   h_vector_weight = nullish (opt_vectorWeight opts) 0.7,
                   h_keyword_weight = nullish (opt_keywordWeight opts) 0.3,
                   h_match_count = n,
                   h_agent_id = agentId c,
                   h_user_id = opt_userId opts,
                   h_category = opt_category opts,
                   h_min_importance = opt_minImportance opts \<rparr>))
   \<and> (n < 0 \<and> generateEmbedding sv c query = Inr None \<and> fault s = None
        \<and> (\<forall>u. opt_userId opts = Some u \<longrightarrow> list_all plain_id_char u) \<longrightarrow>
        recall sv c s query (opts\<lparr>opt_limit := Some n\<rparr>) = Inl (StoreError RangeNotSatisfiable)
        \<and> hybridRecall sv c s query (opts\<lparr>opt_limit := Some n\<rparr>)
            = Inl (StoreError RangeNotSatisfiable))"
proof -
  have zero: "recall sv c s query (opts\<lparr>opt_limit := Some 0\<rparr>)
        = recall sv c s query (opts\<lparr>opt_limit := None\<rparr>)
      \<and> recall sv c s query (opts\<lparr>opt_limit := Some 0\<rparr>)
        = recall sv c s query (opts\<lparr>opt_limit := Some 10\<rparr>)
      \<and> hybridRecall sv c s query (opts\<lparr>opt_limit := Some 0\<rparr>)
        = hybridRecall sv c s query (opts\<lparr>opt_limit := None\<rparr>)
      \<and> hybridRecall sv c s query (opts\<lparr>opt_limit := Some 0\<rparr>)
        = hybridRecall sv c s query (opts\<lparr>opt_limit := Some 10\<rparr>)"
    by (simp add: recall_def hybridRecall_def keyword_query_def or_default_def
        cong: sum.case_cong option.case_cong)
  have request: "n \<noteq> 0 \<longrightarrow> q_limit (keyword_query c query (opts\<lparr>opt_limit := Some n\<rparr>)) = Some n"
    by (simp add: keyword_query_orders_limit or_default_def)
  have keyword: "n \<noteq> 0 \<and> generateEmbedding sv c query = Inr None \<longrightarrow>
        recall sv c s query (opts\<lparr>opt_limit := Some n\<rparr>)
          = throw_on_error
              (select_memories sv s (keyword_query c query (opts\<lparr>opt_limit := Some n\<rparr>)))
        \<and> hybridRecall sv c s query (opts\<lparr>opt_limit := Some n\<rparr>)
          = throw_on_error
              (select_memories sv s (keyword_query c query (opts\<lparr>opt_limit := Some n\<rparr>)))"
    by (simp add: recall_keyword_path hybridRecall_keyword_path)
  have semantic: "n \<noteq> 0 \<and> generateEmbedding sv c query = Inr (Some qe) \<longrightarrow>
        recall sv c s query (opts\<lparr>opt_limit := Some n\<rparr>)
          = throw_on_error
              (match_memories sv s
                 \<lparr> query_embedding = qe,
                   match_threshold = nullish (opt_minSimilarity opts) 0.7,
                   match_count = n,
                   p_agent_id = agentId c,
                   p_user_id = opt_userId opts,
                   p_category = opt_category opts,
                   p_min_importance = opt_minImportance opts \<rparr>)
        \<and> hybridRecall sv c s query (opts\<lparr>opt_limit := Some n\<rparr>)
          = throw_on_error
              (rpc_hybrid_search_memories sv s
                 \<lparr> h_query_embedding = qe,
                   h_query_text = query,
                   h_vector_weight = nullish (opt_vectorWeight opts) 0.7,
                   h_keyword_weight = nullish (opt_keywordWeight opts) 0.3,
                   h_match_count = n,
                   h_agent_id = agentId c,
                   h_user_id = opt_userId opts,
                   h_category = opt_category opts,
                   h_min_importance = opt_minImportance opts \<rparr>)"
    by (simp add: recall_semantic_request hybridRecall_semantic_request or_default_def)
  have negative: "n < 0 \<and> generateEmbedding sv c query = Inr None \<and> fault s = None
        \<and> (\<forall>u. opt_userId opts = Some u \<longrightarrow> list_all plain_id_char u) \<longrightarrow>
        recall sv c s query (opts\<lparr>opt_limit := Some n\<rparr>) = Inl (StoreError RangeNotSatisfiable)
        \<and> hybridRecall sv c s query (opts\<lparr>opt_limit := Some n\<rparr>)
            = Inl (StoreError RangeNotSatisfiable)"
  proof (intro impI, elim conjE)
    assume n: "n < 0" and g: "generateEmbedding sv c query = Inr None" and f: "fault s = None"
      and u: "\<forall>u. opt_userId opts = Some u \<longrightarrow> list_all plain_id_char u"
    from u have u': "\<forall>u. opt_userId (opts\<lparr>opt_limit := Some n\<rparr>) = Some u \<longrightarrow> list_all plain_id_char u"
      by simp
    have "select_memories sv s (keyword_query c query (opts\<lparr>opt_limit := Some n\<rparr>))
          = Inl RangeNotSatisfiable"
      using n f
      by (simp add: select_memories_def apply_limit_def keyword_query_orders_limit
          keyword_conditions_plain [OF u'] or_default_def)
    then show "recall sv c s query (opts\<lparr>opt_limit := Some n\<rparr>) = Inl (StoreError RangeNotSatisfiable)
        \<and> hybridRecall sv c s query (opts\<lparr>opt_limit := Some n\<rparr>)
            = Inl (StoreError RangeNotSatisfiable)"
      by (simp add: recall_keyword_path [OF g] hybridRecall_keyword_path [OF g] throw_on_error_def)
  qed
  from zero request keyword semantic negative show ?thesis
    by (elim conjE, intro conjI) assumption+
qed

theorem zero_limit_is_default_limit_witness:
  "(- 1 :: int) \<noteq> 0 \<and> (- 1 :: int) < 0
   \<and> generateEmbedding example_services keyword_config ''TypeScript'' = Inr None
   \<and> fault (table [memory_A, memory_B]) = None
   \<and> opt_userId no_opts = None
   \<and> q_limit (keyword_query keyword_config ''TypeScript'' (no_opts\<lparr>opt_limit := Some (- 1)\<rparr>))
       = Some (- 1)
   \<and> recall example_services keyword_config (table [memory_A, memory_B]) ''TypeScript''
       (no_opts\<lparr>opt_limit := Some (- 1)\<rparr>) = Inl (StoreError RangeNotSatisfiable)
   \<and> hybridRecall example_services keyword_config (table [memory_A, memory_B]) ''TypeScript''
       (no_opts\<lparr>opt_limit := Some (- 1)\<rparr>) = Inl (StoreError RangeNotSatisfiable)
   \<and> (1 :: int) \<noteq> 0
   \<and> generateEmbedding example_services openai_config ''TypeScript'' = Inr (Some [1, 0])
   \<and> recall example_services openai_config (table [memory_B, memory_A]) ''TypeScript''
       (no_opts\<lparr>opt_limit := Some 1\<rparr>) = Inr [memory_A]
   \<and> hybridRecall example_services openai_config (table [memory_B, memory_A]) ''TypeScript''
       (no_opts\<lparr>opt_limit := Some 1\<rparr>) = Inr [memory_B]"
proof -
  note k = zero_limit_is_default_limit [of example_services keyword_config
      "table [memory_A, memory_B]" "''TypeScript''" no_opts "- 1" "[]"]
  note v = zero_limit_is_default_limit [of example_services openai_config
      "table [memory_B, memory_A]" "''TypeScript''" no_opts 1 "[1, 0]"]
  have n: "(- 1 :: int) \<noteq> 0" and n': "(- 1 :: int) < 0" and p: "(1 :: int) \<noteq> 0"
    by simp_all
  have g: "generateEmbedding example_services keyword_config ''TypeScript'' = Inr None"
    by (simp add: generateEmbedding_def keyword_config_def)
  have f: "fault (table [memory_A, memory_B]) = None"
    by (simp add: table_def)
  have u: "\<forall>u. opt_userId no_opts = Some u \<longrightarrow> list_all plain_id_char u"
    by (simp add: no_opts_def)
  have e: "generateEmbedding example_services openai_config ''TypeScript'' = Inr (Some [1, 0])"
    by (simp add: generateEmbedding_def openai_def or_default_string_def openai_config_def
        keyword_config_def example_services_def)
  from k have "- 1 \<noteq> (0 :: int) \<longrightarrow>
      q_limit (keyword_query keyword_config ''TypeScript'' (no_opts\<lparr>opt_limit := Some (- 1)\<rparr>))
        = Some (- 1)"
    by (elim conjE)
  note l = this [rule_format, OF n]
  from k have "(- 1 :: int) < 0
        \<and> generateEmbedding example_services keyword_config ''TypeScript'' = Inr None
        \<and> fault (table [memory_A, memory_B]) = None
        \<and> (\<forall>u. opt_userId no_opts = Some u \<longrightarrow> list_all plain_id_char u) \<longrightarrow>
      recall example_services keyword_config (table [memory_A, memory_B]) ''TypeScript''
          (no_opts\<lparr>opt_limit := Some (- 1)\<rparr>) = Inl (StoreError RangeNotSatisfiable)
      \<and> hybridRecall example_services keyword_config (table [memory_A, memory_B]) ''TypeScript''
          (no_opts\<lparr>opt_limit := Some (- 1)\<rparr>) = Inl (StoreError RangeNotSatisfiable)"
    by (elim conjE)
  note r = this [rule_format, OF conjI [OF n' conjI [OF g conjI [OF f u]]]]
  from v have "(1 :: int) \<noteq> 0
        \<and> generateEmbedding example_services openai_config ''TypeScript'' = Inr (Some [1, 0]) \<longrightarrow>
        recall example_services openai_config (table [memory_B, memory_A]) ''TypeScript''
            (no_opts\<lparr>opt_limit := Some 1\<rparr>)
          = throw_on_error
              (match_memories example_services (table [memory_B, memory_A])
                 \<lparr> query_embedding = [1, 0],
                   match_threshold = nullish (opt_minSimilarity no_opts) 0.7,
                   match_count = 1,
                   p_agent_id = agentId openai_config,
                   p_user_id = opt_userId no_opts,
                   p_category = opt_category no_opts,
                   p_min_importance = opt_minImportance no_opts \<rparr>)
        \<and> hybridRecall example_services openai_config (table [memory_B, memory_A]) ''TypeScript''
            (no_opts\<lparr>opt_limit := Some 1\<rparr>)
          = throw_on_error
              (rpc_hybrid_search_memories example_services (table [memory_B, memory_A])
                 \<lparr> h_query_embedding = [1, 0],
                   h_query_text = ''TypeScript'',
                   h_vector_weight = nullish (opt_vectorWeight no_opts) 0.7,
                   h_keyword_weight = nullish (opt_keywordWeight no_opts) 0.3,
                   h_match_count = 1,
                   h_agent_id = agentId openai_config,
                   h_user_id = opt_userId no_opts,
                   h_category = opt_category no_opts,
                   h_min_importance = opt_minImportance no_opts \<rparr>)"
    by (elim conjE)
  note m = this [rule_format, OF conjI [OF p e]]
  have a: "recall example_services openai_config (table [memory_B, memory_A]) ''TypeScript''
       (no_opts\<lparr>opt_limit := Some 1\<rparr>) = Inr [memory_A]"
    unfolding m [THEN conjunct1]
    by (simp add: match_memories_def match_candidate_def semantic_key_def similar_enough_def
        similarity_to_def nullish_def throw_on_error_def example_defs)
  have b: "hybridRecall example_services openai_config (table [memory_B, memory_A]) ''TypeScript''
       (no_opts\<lparr>opt_limit := Some 1\<rparr>) = Inr [memory_B]"
    unfolding m [THEN conjunct2]
    by (simp add: rpc_hybrid_search_memories_def nullish_def throw_on_error_def example_defs)
  have o: "opt_userId no_opts = None"
    by (simp add: no_opts_def)
  from n n' g f o l r [THEN conjunct1] r [THEN conjunct2] p e a b show ?thesis
    by (intro conjI)
qed

text \<open>
  C1 as stated fails: with the limit 0, both strategies return the memory that matches
  the query; with the limit -1, both throw the error of the store.
\<close>

theorem zero_limit_counterexample:
  "recall example_services keyword_config (table [memory_A, memory_B]) ''TypeScript''
     (no_opts\<lparr>opt_limit := Some 0\<rparr>) = Inr [memory_A]
   \<and> hybridRecall example_services keyword_config (table [memory_A, memory_B]) ''TypeScript''
       (no_opts\<lparr>opt_limit := Some 0\<rparr>) = Inr [memory_A]
   \<and> recall example_services keyword_config (table [memory_A, memory_B]) ''TypeScript''
       (no_opts\<lparr>opt_limit := Some (- 1)\<rparr>) = Inl (StoreError RangeNotSatisfiable)
   \<and> hybridRecall example_services keyword_config (table [memory_A, memory_B]) ''TypeScript''
       (no_opts\<lparr>opt_limit := Some (- 1)\<rparr>) = Inl (StoreError RangeNotSatisfiable)"
  by (simp add: hybridRecall_def keyword_path_defs example_defs)

section \<open>Hybrid recall without an embedding\<close>

text \<open>
  C3. When no embedding provider is configured, or the provider is \<open>none\<close>,
  \<open>hybridRecall\<close> returns exactly what \<open>recall\<close> returns for the same query and the same
  options (the same memories, or the same error).
\<close>

theorem hybridRecall_degrades_to_recall:
  assumes "embeddingProvider c = None \<or> embeddingProvider c = Some NoProvider"
  shows "hybridRecall sv c s query opts = recall sv c s query opts"
  using generateEmbedding_unavailable [OF assms, of sv query]
  by (simp add: hybridRecall_def)

theorem hybridRecall_degrades_to_recall_witness:
  "(embeddingProvider keyword_config = None \<or> embeddingProvider keyword_config = Some NoProvider)
   \<and> hybridRecall example_services keyword_config (table [memory_A, memory_B]) ''coffee'' no_opts
       = recall example_services keyword_config (table [memory_A, memory_B]) ''coffee'' no_opts
   \<and> recall example_services keyword_config (table [memory_A, memory_B]) ''coffee'' no_opts
       = Inr [memory_B]"
proof -
  have h: "embeddingProvider keyword_config = None \<or> embeddingProvider keyword_config = Some NoProvider"
    by (simp add: keyword_config_def)
  have r: "recall example_services keyword_config (table [memory_A, memory_B]) ''coffee'' no_opts
           = Inr [memory_B]"
    by (simp add: keyword_path_defs example_defs)
  show ?thesis
    using h r hybridRecall_degrades_to_recall [OF h, of example_services
        "table [memory_A, memory_B]" "''coffee''" no_opts]
    by simp
qed

section \<open>remember\<close>

text \<open>
  C5. When the generation of the embedding fails, \<open>remember\<close> throws that error and the
  store is left as it was: nothing is inserted. This is the case for the provider
  \<open>voyage\<close>, which is not implemented, and for the provider \<open>openai\<close> without an API
  key.
\<close>

theorem remember_aborts_before_insert:
  "(generateEmbedding sv c (in_content inp) = Inl err \<longrightarrow> remember sv c s d inp = (Inl err, s))
   \<and> (embeddingProvider c = Some Voyage \<longrightarrow>
        remember sv c s d inp = (Inl VoyageNotImplemented, s))
   \<and> (embeddingProvider c = Some OpenAI \<and> openai c = None \<longrightarrow>
        remember sv c s d inp = (Inl OpenAIKeyNotProvided, s))"
  by (auto simp: remember_def generateEmbedding_voyage generateEmbedding_missing_key)

theorem remember_aborts_before_insert_witness:
  "generateEmbedding example_services voyage_config (in_content tea_input) = Inl VoyageNotImplemented
   \<and> embeddingProvider voyage_config = Some Voyage
   \<and> remember example_services voyage_config (table [memory_A]) fresh_row tea_input
       = (Inl VoyageNotImplemented, table [memory_A])
   \<and> embeddingProvider (keyword_config\<lparr>embeddingProvider := Some OpenAI\<rparr>) = Some OpenAI
   \<and> openai (keyword_config\<lparr>embeddingProvider := Some OpenAI\<rparr>) = None
   \<and> remember example_services (keyword_config\<lparr>embeddingProvider := Some OpenAI\<rparr>)
         (table [memory_A]) fresh_row tea_input
       = (Inl OpenAIKeyNotProvided, table [memory_A])"
proof -
  have v: "embeddingProvider voyage_config = Some Voyage"
    by (simp add: voyage_config_def)
  have g: "generateEmbedding example_services voyage_config (in_content tea_input)
           = Inl VoyageNotImplemented"
    by (simp add: generateEmbedding_def voyage_config_def)
  have k: "embeddingProvider (keyword_config\<lparr>embeddingProvider := Some OpenAI\<rparr>) = Some OpenAI
           \<and> openai (keyword_config\<lparr>embeddingProvider := Some OpenAI\<rparr>) = None"
    by (simp add: keyword_config_def openai_def)
  show ?thesis
    using v g k
      remember_aborts_before_insert [of example_services voyage_config tea_input
        VoyageNotImplemented "table [memory_A]" fresh_row]
      remember_aborts_before_insert [of example_services
        "keyword_config\<lparr>embeddingProvider := Some OpenAI\<rparr>" tea_input
        OpenAIKeyNotProvided "table [memory_A]" fresh_row]
    by simp
qed

text \<open>
  C9. The object that \<open>remember\<close> hands to the store carries the importance 0.5 when
  the caller gives none, and the empty metadata object when the caller gives none; so
  does the row that a successful \<open>remember\<close> appends to the table and returns.
\<close>

theorem remember_applies_defaults:
  "(in_importance inp = None \<longrightarrow> ins_importance (remember_row c inp emb) = 0.5)
   \<and> (in_metadata inp = None \<longrightarrow> ins_metadata (remember_row c inp emb) = [])
   \<and> (remember sv c s d inp = (Inr m, s') \<longrightarrow>
        memories s' = memories s @ [m]
        \<and> (in_importance inp = None \<longrightarrow> importance m = 0.5)
        \<and> (in_metadata inp = None \<longrightarrow> metadata m = []))"
  by (auto simp: remember_def insert_memory_def remember_row_def nullish_def Let_def
      split: sum.splits option.splits prod.splits)

theorem remember_applies_defaults_witness:
  "in_importance tea_input = None \<and> in_metadata tea_input = None
   \<and> remember example_services keyword_config (table [memory_A]) fresh_row tea_input
       = (Inr memory_E, table [memory_A, memory_E])
   \<and> importance memory_E = 0.5 \<and> metadata memory_E = []
   \<and> ins_importance (remember_row keyword_config tea_input None) = 0.5
   \<and> ins_metadata (remember_row keyword_config tea_input None) = []"
proof -
  have i: "in_importance tea_input = None \<and> in_metadata tea_input = None"
    by (simp add: tea_input_def)
  have r: "remember example_services keyword_config (table [memory_A]) fresh_row tea_input
           = (Inr memory_E, table [memory_A, memory_E])"
    by (simp add: remember_def generateEmbedding_def insert_memory_def remember_row_def
        nullish_def Let_def example_defs)
  show ?thesis
    using i r
      remember_applies_defaults [of tea_input keyword_config None example_services
        "table [memory_A]" fresh_row memory_E "table [memory_A, memory_E]"]
    by simp
qed

section \<open>Filters and result size\<close>

text \<open>
  C2 (as amended). The claim is that the result of \<open>recall\<close> is no longer than the
  supplied limit and that every returned memory satisfies all supplied filters, a
  minimum importance of 0 included. The code applies a filter only when the option is
  truthy, and replaces a limit of 0 by 10. What holds, on the keyword path and on the
  semantic path alike: a successful \<open>recall\<close> returns at most \<open>limit || 10\<close> memories, so
  at most \<open>limit\<close> when the limit is positive; and every returned memory satisfies the
  \<open>userId\<close> filter when it is a non-empty string of plain characters (its \<open>user_id\<close> is
  that user or null), the \<open>category\<close> filter when it is a non-empty string, and the
  \<open>minImportance\<close> filter when it is not 0. Of a user id with other characters, which
  the keyword path splices into the argument of \<open>or\<close> as it is, nothing is said.
\<close>

theorem recall_respects_truthy_filters:
  assumes "recall sv c s query opts = Inr rows"
  shows "length rows \<le> nat (or_default (opt_limit opts) 10)
         \<and> (\<forall>n. opt_limit opts = Some n \<and> 0 < n \<longrightarrow> length rows \<le> nat n)
         \<and> (\<forall>m \<in> set rows.
              (\<forall>u. opt_userId opts = Some u \<and> u \<noteq> [] \<and> list_all plain_id_char u \<longrightarrow>
                   user_id m = Some u \<or> user_id m = None)
              \<and> (\<forall>cat. opt_category opts = Some cat \<and> cat \<noteq> [] \<longrightarrow> category m = Some cat)
              \<and> (\<forall>x. opt_minImportance opts = Some x \<and> x \<noteq> 0 \<longrightarrow> x \<le> importance m))"
proof -
  have cap: "length rows \<le> nat (or_default (opt_limit opts) 10) \<Longrightarrow>
      \<forall>n. opt_limit opts = Some n \<and> 0 < n \<longrightarrow> length rows \<le> nat n"
    by (auto simp: or_default_def)
  consider (err) e where "generateEmbedding sv c query = Inl e"
    | (keyword) "generateEmbedding sv c query = Inr None"
    | (semantic) qe where "generateEmbedding sv c query = Inr (Some qe)"
    by (cases "generateEmbedding sv c query") auto
  then show ?thesis
  proof cases
    case err
    with assms show ?thesis by (simp add: recall_def)
  next
    case keyword
    with assms have sel: "select_memories sv s (keyword_query c query opts) = Inr rows"
      by (simp add: recall_keyword_path throw_on_error_def split: sum.splits)
    have len: "length rows \<le> nat (or_default (opt_limit opts) 10)"
      using sel by (rule select_keyword_length)
    have "\<forall>m \<in> set rows.
              (\<forall>u. opt_userId opts = Some u \<and> u \<noteq> [] \<and> list_all plain_id_char u \<longrightarrow>
                   user_id m = Some u \<or> user_id m = None)
              \<and> (\<forall>cat. opt_category opts = Some cat \<and> cat \<noteq> [] \<longrightarrow> category m = Some cat)
              \<and> (\<forall>x. opt_minImportance opts = Some x \<and> x \<noteq> 0 \<longrightarrow> x \<le> importance m)"
    proof
      fix m
      assume m: "m \<in> set rows"
      from select_keyword_matches [OF sel m]
      have "(\<forall>cat. opt_category opts = Some cat \<and> cat \<noteq> [] \<longrightarrow> category m = Some cat)
          \<and> (\<forall>x. opt_minImportance opts = Some x \<and> x \<noteq> 0 \<longrightarrow> x \<le> importance m)"
        by (simp add: matches_keyword_query)
      moreover have "\<forall>u. opt_userId opts = Some u \<and> u \<noteq> [] \<and> list_all plain_id_char u \<longrightarrow>
                   user_id m = Some u \<or> user_id m = None"
        using select_keyword_user [OF sel m] by auto
      ultimately show "(\<forall>u. opt_userId opts = Some u \<and> u \<noteq> [] \<and> list_all plain_id_char u \<longrightarrow>
                   user_id m = Some u \<or> user_id m = None)
              \<and> (\<forall>cat. opt_category opts = Some cat \<and> cat \<noteq> [] \<longrightarrow> category m = Some cat)
              \<and> (\<forall>x. opt_minImportance opts = Some x \<and> x \<noteq> 0 \<longrightarrow> x \<le> importance m)"
        by (elim conjE, intro conjI) assumption+
    qed
    with len cap [OF len] show ?thesis by (intro conjI)
  next
    case semantic
    note rows = recall_semantic_path [OF semantic assms]
    then have len: "length rows \<le> nat (or_default (opt_limit opts) 10)"
      by simp
    have "\<forall>m \<in> set rows. match_candidate
                     \<lparr> query_embedding = qe,
                       match_threshold = nullish (opt_minSimilarity opts) 0.7,
                       match_count = or_default (opt_limit opts) 10,
                       p_agent_id = agentId c,
                       p_user_id = opt_userId opts,
                       p_category = opt_category opts,
                       p_min_importance = opt_minImportance opts \<rparr> m"
      using rows by (auto dest: in_set_takeD)
    then have "\<forall>m \<in> set rows.
              (\<forall>u. opt_userId opts = Some u \<and> u \<noteq> [] \<and> list_all plain_id_char u \<longrightarrow>
                   user_id m = Some u \<or> user_id m = None)
              \<and> (\<forall>cat. opt_category opts = Some cat \<and> cat \<noteq> [] \<longrightarrow> category m = Some cat)
              \<and> (\<forall>x. opt_minImportance opts = Some x \<and> x \<noteq> 0 \<longrightarrow> x \<le> importance m)"
      using match_candidate_filters(2-4) by fastforce
    with len cap [OF len] show ?thesis by (intro conjI)
  qed
qed

theorem recall_respects_truthy_filters_witness:
  "list_all plain_id_char ''u1''
   \<and> recall example_services keyword_config (table [memory_D, memory_B, memory_A]) ''e''
       (filtering_opts\<lparr>opt_limit := Some 1\<rparr>) = Inr [memory_A]
   \<and> length [memory_A] \<le> nat 1
   \<and> (user_id memory_A = Some ''u1'' \<or> user_id memory_A = None)
   \<and> category memory_A = Some ''preference''
   \<and> 0.1 \<le> importance memory_A
   \<and> recall example_services openai_config (table [memory_D, memory_B, memory_A]) ''e''
       (filtering_opts\<lparr>opt_limit := Some 1\<rparr>) = Inr [memory_A]"
proof -
  have k: "recall example_services keyword_config (table [memory_D, memory_B, memory_A]) ''e''
     (filtering_opts\<lparr>opt_limit := Some 1\<rparr>) = Inr [memory_A]"
    by (simp add: keyword_path_defs example_defs filtering_opts_def)
  have v: "recall example_services openai_config (table [memory_D, memory_B, memory_A]) ''e''
     (filtering_opts\<lparr>opt_limit := Some 1\<rparr>) = Inr [memory_A]"
    by (simp add: semantic_path_defs example_defs filtering_opts_def)
  have pl: "list_all plain_id_char ''u1''"
    by (simp add: plain_id_char_def)
  have u: "opt_userId (filtering_opts\<lparr>opt_limit := Some 1\<rparr>) = Some ''u1'' \<and> ''u1'' \<noteq> []
           \<and> list_all plain_id_char ''u1''"
    and c: "opt_category (filtering_opts\<lparr>opt_limit := Some 1\<rparr>) = Some ''preference''
            \<and> ''preference'' \<noteq> []"
    and i: "opt_minImportance (filtering_opts\<lparr>opt_limit := Some 1\<rparr>) = Some 0.1 \<and> (0.1 :: real) \<noteq> 0"
    and l: "opt_limit (filtering_opts\<lparr>opt_limit := Some 1\<rparr>) = Some 1 \<and> (0 :: int) < 1"
    using pl by (simp_all add: filtering_opts_def)
  note tk = recall_respects_truthy_filters [OF k]
  from tk have "\<forall>m \<in> set [memory_A].
      (\<forall>u. opt_userId (filtering_opts\<lparr>opt_limit := Some 1\<rparr>) = Some u \<and> u \<noteq> []
            \<and> list_all plain_id_char u \<longrightarrow>
           user_id m = Some u \<or> user_id m = None)
      \<and> (\<forall>cat. opt_category (filtering_opts\<lparr>opt_limit := Some 1\<rparr>) = Some cat \<and> cat \<noteq> [] \<longrightarrow>
             category m = Some cat)
      \<and> (\<forall>x. opt_minImportance (filtering_opts\<lparr>opt_limit := Some 1\<rparr>) = Some x \<and> x \<noteq> 0 \<longrightarrow>
             x \<le> importance m)"
    by (elim conjE)
  then have fa: "(\<forall>u. opt_userId (filtering_opts\<lparr>opt_limit := Some 1\<rparr>) = Some u \<and> u \<noteq> []
            \<and> list_all plain_id_char u \<longrightarrow>
           user_id memory_A = Some u \<or> user_id memory_A = None)
      \<and> (\<forall>cat. opt_category (filtering_opts\<lparr>opt_limit := Some 1\<rparr>) = Some cat \<and> cat \<noteq> [] \<longrightarrow>
             category memory_A = Some cat)
      \<and> (\<forall>x. opt_minImportance (filtering_opts\<lparr>opt_limit := Some 1\<rparr>) = Some x \<and> x \<noteq> 0 \<longrightarrow>
             x \<le> importance memory_A)"
    by (rule bspec) simp
  from tk have "\<forall>n. opt_limit (filtering_opts\<lparr>opt_limit := Some 1\<rparr>) = Some n \<and> 0 < n \<longrightarrow>
      length [memory_A] \<le> nat n"
    by (elim conjE)
  note la = this [rule_format, OF l]
  note a = la fa [THEN conjunct1, rule_format, OF u]
    fa [THEN conjunct2, THEN conjunct1, rule_format, OF c]
    fa [THEN conjunct2, THEN conjunct2, rule_format, OF i]
  from pl k a v show ?thesis
    by (intro conjI)
qed

text \<open>
  C2 as stated fails: with \<open>minImportance = 0\<close> the filter is not applied, and a memory
  whose stored importance is negative is returned.
\<close>

theorem zero_minImportance_counterexample:
  "recall example_services keyword_config (table [memory_A, memory_D]) ''note''
     (no_opts\<lparr>opt_minImportance := Some 0\<rparr>) = Inr [memory_D]
   \<and> importance memory_D < 0"
  by (simp add: keyword_path_defs example_defs)

section \<open>The keyword fallback\<close>

lemma recall_keyword_value:
  assumes "embeddingProvider c = None \<or> embeddingProvider c = Some NoProvider"
    and "fault s = None"
    and "0 \<le> or_default (opt_limit opts) 10"
    and "\<forall>u. opt_userId opts = Some u \<longrightarrow> list_all plain_id_char u"
  shows "recall sv c s query opts =
           Inr (take (nat (or_default (opt_limit opts) 10))
                  (sort_key (order_key [Importance_desc, Created_at_desc])
                     (filter (\<lambda>m. agent_id m = agentId c
                         \<and> (\<forall>u. opt_userId opts = Some u \<and> u \<noteq> [] \<longrightarrow>
                                user_id m = Some u \<or> user_id m = None)
                         \<and> (\<forall>cat. opt_category opts = Some cat \<and> cat \<noteq> [] \<longrightarrow>
                                category m = Some cat)
                         \<and> (\<forall>x. opt_minImportance opts = Some x \<and> x \<noteq> 0 \<longrightarrow> x \<le> importance m)
                         \<and> ilike (''%'' @ query @ ''%'') (content m))
                        (memories s))))"
  using generateEmbedding_unavailable [OF assms(1), of sv query]
  by (simp add: recall_keyword_path select_keyword_value [OF assms(2,3,4)] throw_on_error_def)

lemma order_key_recall:
  "order_key [Importance_desc, Created_at_desc] = (\<lambda>m. [- importance m, - real_of_int (created_at m)])"
  by (simp add: order_key_def fun_eq_iff)

text \<open>
  C4 (as amended). The claim is that without an embedding \<open>recall\<close> returns the
  memories whose content matches the query, under the same filters, ordered by
  importance descending then \<open>created_at\<close> descending, capped at the limit, and raises no
  error. The cap is \<open>limit || 10\<close>, not the limit: what holds is that, when no embedding
  provider is configured, the store answers, \<open>limit || 10\<close> is not negative and the user
  id, if one is given, has plain characters only, \<open>recall\<close> returns, as an ordinary
  result, the first \<open>limit || 10\<close> of the rows of the agent that satisfy the truthy
  filters and whose content matches the pattern \<open>%query%\<close>, in the order of importance
  descending, then \<open>created_at\<close> descending. For a query of plain characters the
  pattern is a case-insensitive substring test. Of a user id with other characters,
  which is spliced into the argument of \<open>or\<close> as it is, nothing is said.
\<close>

theorem keyword_fallback:
  assumes "embeddingProvider c = None \<or> embeddingProvider c = Some NoProvider"
    and "fault s = None"
    and "0 \<le> or_default (opt_limit opts) 10"
    and "\<forall>u. opt_userId opts = Some u \<longrightarrow> list_all plain_id_char u"
  shows "\<exists>rows. recall sv c s query opts = Inr rows
           \<and> rows = take (nat (or_default (opt_limit opts) 10))
                 (sort_key (\<lambda>m. [- importance m, - real_of_int (created_at m)])
                   (filter (\<lambda>m. agent_id m = agentId c
                       \<and> (\<forall>u. opt_userId opts = Some u \<and> u \<noteq> [] \<longrightarrow>
                              user_id m = Some u \<or> user_id m = None)
                       \<and> (\<forall>cat. opt_category opts = Some cat \<and> cat \<noteq> [] \<longrightarrow> category m = Some cat)
                       \<and> (\<forall>x. opt_minImportance opts = Some x \<and> x \<noteq> 0 \<longrightarrow> x \<le> importance m)
                       \<and> ilike (''%'' @ query @ ''%'') (content m))
                     (memories s)))
           \<and> sorted_wrt (\<lambda>a b. importance b < importance a
                  \<or> (importance a = importance b \<and> created_at b \<le> created_at a)) rows
           \<and> (list_all plain_char query \<longrightarrow>
                (\<forall>text. ilike (''%'' @ query @ ''%'') text
                   \<longleftrightarrow> sublist (map lower_char query) (map lower_char text)))"
proof -
  note r = recall_keyword_value [OF assms, of sv query]
  have s: "sorted_wrt (\<lambda>a b. importance b < importance a
                  \<or> (importance a = importance b \<and> created_at b \<le> created_at a))
       (take (nat (or_default (opt_limit opts) 10))
                  (sort_key (order_key [Importance_desc, Created_at_desc])
                     (filter (\<lambda>m. agent_id m = agentId c
                         \<and> (\<forall>u. opt_userId opts = Some u \<and> u \<noteq> [] \<longrightarrow>
                                user_id m = Some u \<or> user_id m = None)
                         \<and> (\<forall>cat. opt_category opts = Some cat \<and> cat \<noteq> [] \<longrightarrow>
                                category m = Some cat)
                         \<and> (\<forall>x. opt_minImportance opts = Some x \<and> x \<noteq> 0 \<longrightarrow> x \<le> importance m)
                         \<and> ilike (''%'' @ query @ ''%'') (content m))
                        (memories s))))"
    by (rule sorted_recall_order)
  have p: "list_all plain_char query \<longrightarrow>
                (\<forall>text. ilike (''%'' @ query @ ''%'') text
                   \<longleftrightarrow> sublist (map lower_char query) (map lower_char text))"
    using ilike_substring by blast
  from r s p show ?thesis
    unfolding order_key_recall by blast
qed

theorem keyword_fallback_witness:
  "(embeddingProvider keyword_config = None \<or> embeddingProvider keyword_config = Some NoProvider)
   \<and> fault (table [memory_D, memory_B, memory_A, memory_C]) = None
   \<and> 0 \<le> or_default (opt_limit filtering_opts) 10
   \<and> opt_userId filtering_opts = Some ''u1''
   \<and> list_all plain_id_char ''u1''
   \<and> list_all plain_char ''e''
   \<and> recall example_services keyword_config (table [memory_D, memory_B, memory_A, memory_C]) ''e''
       filtering_opts = Inr [memory_A, memory_B]"
proof -
  have h1: "embeddingProvider keyword_config = None \<or> embeddingProvider keyword_config = Some NoProvider"
    by (simp add: keyword_config_def)
  have h2: "fault (table [memory_D, memory_B, memory_A, memory_C]) = None"
    by (simp add: table_def)
  have h3: "0 \<le> or_default (opt_limit filtering_opts) 10"
    by (simp add: or_default_def filtering_opts_def)
  have h4: "\<forall>u. opt_userId filtering_opts = Some u \<longrightarrow> list_all plain_id_char u"
    by (simp add: filtering_opts_def plain_id_char_def)
  have h5: "list_all plain_char ''e''"
    by (simp add: plain_char_def)
  have r: "recall example_services keyword_config (table [memory_D, memory_B, memory_A, memory_C]) ''e''
       filtering_opts = Inr [memory_A, memory_B]"
    by (simp add: keyword_path_defs example_defs filtering_opts_def)
  have h6: "opt_userId filtering_opts = Some ''u1''" and h7: "list_all plain_id_char ''u1''"
    by (simp_all add: filtering_opts_def plain_id_char_def)
  show ?thesis
    using h1 h2 h3 h5 h6 h7 r keyword_fallback [OF h1 h2 h3 h4, of example_services "''e''"]
    by simp
qed

text \<open>
  C4 as stated fails: with the limit 0 the result is capped at 10, and both matching
  memories are returned.
\<close>

theorem keyword_fallback_cap_counterexample:
  "recall example_services keyword_config (table [memory_B, memory_A]) ''e''
     (no_opts\<lparr>opt_limit := Some 0\<rparr>) = Inr [memory_A, memory_B]"
  by (simp add: keyword_path_defs example_defs)

section \<open>The empty query\<close>

text \<open>
  C10 (as amended). The pattern of the empty query is \<open>%%\<close>, which every content
  satisfies. The claim is that \<open>recall("")\<close> with no other filters returns the top
  \<open>limit\<close> memories of the agent; the cap is \<open>limit || 10\<close>. What holds, when no embedding
  provider is configured, the store answers and \<open>limit || 10\<close> is not negative: the
  result is the first \<open>limit || 10\<close> of all the rows of the agent, whatever their
  content, in the order of importance descending, then \<open>created_at\<close> descending.
\<close>

theorem empty_query_returns_top_memories:
  assumes "embeddingProvider c = None \<or> embeddingProvider c = Some NoProvider"
    and "fault s = None"
    and "opt_userId opts = None" and "opt_category opts = None" and "opt_minImportance opts = None"
    and "0 \<le> or_default (opt_limit opts) 10"
  shows "(\<forall>text. ilike ''%%'' text)
         \<and> recall sv c s [] opts =
             Inr (take (nat (or_default (opt_limit opts) 10))
                    (sort_key (\<lambda>m. [- importance m, - real_of_int (created_at m)])
                       (filter (\<lambda>m. agent_id m = agentId c) (memories s))))"
proof -
  have i: "\<forall>text. ilike ''%%'' text"
    by (simp add: ilike_def like_percent_percent del: like.simps)
  have u: "\<forall>u. opt_userId opts = Some u \<longrightarrow> list_all plain_id_char u"
    using assms(3) by simp
  show ?thesis
    using i recall_keyword_value [OF assms(1,2,6) u, of sv "[]"] assms(3-5)
    unfolding order_key_recall by simp
qed

theorem empty_query_returns_top_memories_witness:
  "(embeddingProvider keyword_config = None \<or> embeddingProvider keyword_config = Some NoProvider)
   \<and> fault (table [memory_D, memory_B, memory_A, memory_C]) = None
   \<and> 0 \<le> or_default (opt_limit (no_opts\<lparr>opt_limit := Some 2\<rparr>)) 10
   \<and> ilike ''%%'' (content memory_B)
   \<and> recall example_services keyword_config (table [memory_D, memory_B, memory_A, memory_C]) []
       (no_opts\<lparr>opt_limit := Some 2\<rparr>) = Inr [memory_A, memory_B]"
proof -
  have h1: "embeddingProvider keyword_config = None \<or> embeddingProvider keyword_config = Some NoProvider"
    by (simp add: keyword_config_def)
  have h2: "fault (table [memory_D, memory_B, memory_A, memory_C]) = None"
    by (simp add: table_def)
  have h3: "opt_userId (no_opts\<lparr>opt_limit := Some 2\<rparr>) = None"
    "opt_category (no_opts\<lparr>opt_limit := Some 2\<rparr>) = None"
    "opt_minImportance (no_opts\<lparr>opt_limit := Some 2\<rparr>) = None"
    by (simp_all add: no_opts_def)
  have h4: "0 \<le> or_default (opt_limit (no_opts\<lparr>opt_limit := Some 2\<rparr>)) 10"
    by (simp add: or_default_def)
  show ?thesis
    using h1 h2 h4 empty_query_returns_top_memories [OF h1 h2 h3 h4, of example_services]
    by (simp add: example_defs or_default_def)
qed

text \<open>
  C10 as stated fails for the limit 0: the result is not the top 0 memories, the one
  memory of the agent is returned.
\<close>

theorem empty_query_zero_limit_counterexample:
  "recall example_services keyword_config (table [memory_A]) []
     (no_opts\<lparr>opt_limit := Some 0\<rparr>) = Inr [memory_A]"
  by (simp add: keyword_path_defs example_defs)

section \<open>getContext\<close>

lemma join_with_Cons:
  "join_with sep (x # xs) = x @ concat (map (\<lambda>y. sep @ y) xs)"
  by (induction sep xs arbitrary: x rule: join_with.induct) simp_all

lemma summary_lines:
  "xs \<noteq> [] \<Longrightarrow>
   header @ [nl] @ join_with [nl] xs = header @ concat (map (\<lambda>x. nl # x) xs)"
  by (cases xs) (simp_all add: join_with_Cons)

text \<open>
  C6 (as amended). The claim is that \<open>getContext\<close> calls \<open>recall\<close> with
  \<open>limit = maxMemories\<close> (default 5) and the given \<open>userId\<close>, and renders the summary
  from a fixed template. The limit passed is \<open>maxMemories || 5\<close>: \<open>maxMemories\<close> when it
  is given and not 0, and 5 otherwise. What holds: the memories of the payload are the
  result of \<open>recall\<close> (not of \<open>hybridRecall\<close>) for the same query with that limit, the
  given \<open>userId\<close> and no other option; an error of \<open>recall\<close> is the error of
  \<open>getContext\<close>; and the summary is the text \<open>No relevant memories found.\<close> when there
  are no memories, and otherwise the header \<open>Relevant memories:\<close> followed, for each
  memory in the order of \<open>recall\<close>, by a new line that holds \<open>- \<close> and the whole
  content of the memory.
\<close>

theorem getContext_recall_and_summary:
  "(let recall_options =
          \<lparr> opt_userId = ctx_userId opts, opt_category = None,
            opt_limit = Some (case maxMemories opts of None \<Rightarrow> 5
                              | Some n \<Rightarrow> if n = 0 then 5 else n),
            opt_minImportance = None, opt_minSimilarity = None,
            opt_vectorWeight = None, opt_keywordWeight = None \<rparr>;
        render = (\<lambda>mems. if mems = [] then ''No relevant memories found.''
                         else ''Relevant memories:''
                              @ concat (map (\<lambda>m. CHR 0x0A # ''- '' @ content m) mems))
    in (\<forall>payload. getContext sv c s query opts = Inr payload \<longrightarrow>
          recall sv c s query recall_options = Inr (ctx_memories payload)
          \<and> summary payload = render (ctx_memories payload))
       \<and> (\<forall>e. recall sv c s query recall_options = Inl e \<longrightarrow>
             getContext sv c s query opts = Inl e)
       \<and> (\<forall>mems. recall sv c s query recall_options = Inr mems \<and> ctx_sessionId opts = None \<longrightarrow>
             getContext sv c s query opts
               = Inr \<lparr> ctx_memories = mems, recentMessages = [], summary = render mems \<rparr>))"
proof -
  have l: "or_default (maxMemories opts) 5
      = (case maxMemories opts of None \<Rightarrow> 5 | Some n \<Rightarrow> if n = 0 then 5 else n)"
    by (simp add: or_default_def)
  have r: "\<And>mems. mems \<noteq> [] \<Longrightarrow>
      ''Relevant memories:'' @ [CHR 0x0A] @ join_with [CHR 0x0A] (map (\<lambda>m. ''- '' @ content m) mems)
      = ''Relevant memories:'' @ concat (map (\<lambda>m. CHR 0x0A # ''- '' @ content m) mems)"
    using summary_lines [of "map (\<lambda>m. ''- '' @ content m) _" "''Relevant memories:''" "CHR 0x0A"]
    by (simp add: comp_def)
  show ?thesis
    unfolding Let_def getContext_def l
    using r by (auto simp: if_string_def split: sum.splits option.splits)
qed

theorem getContext_recall_and_summary_witness:
  "ctx_sessionId (no_context_opts\<lparr>maxMemories := Some 1\<rparr>) = None
   \<and> recall example_services keyword_config (table [memory_B, memory_A]) ''e''
       (no_opts\<lparr>opt_limit := Some 1\<rparr>) = Inr [memory_A]
   \<and> getContext example_services keyword_config (table [memory_B, memory_A]) ''e''
       (no_context_opts\<lparr>maxMemories := Some 1\<rparr>)
       = Inr \<lparr> ctx_memories = [memory_A], recentMessages = [],
               summary = ''Relevant memories:'' @ [CHR 0x0A] @ ''- prefers TypeScript'' \<rparr>
   \<and> getContext example_services keyword_config (table [memory_B, memory_A]) ''tea''
       (no_context_opts\<lparr>maxMemories := Some 1\<rparr>)
       = Inr \<lparr> ctx_memories = [], recentMessages = [],
               summary = ''No relevant memories found.'' \<rparr>
   \<and> recall example_services keyword_config (broken_table [memory_A]) ''e''
       (no_opts\<lparr>opt_limit := Some 1\<rparr>) = Inl (StoreError ConnectionFailure)
   \<and> getContext example_services keyword_config (broken_table [memory_A]) ''e''
       (no_context_opts\<lparr>maxMemories := Some 1\<rparr>) = Inl (StoreError ConnectionFailure)
   \<and> recall example_services openai_config (table [memory_D, memory_B, memory_A]) ''e''
       (no_opts\<lparr>opt_limit := Some 1\<rparr>) = Inr [memory_A]
   \<and> hybridRecall example_services openai_config (table [memory_D, memory_B, memory_A]) ''e''
       (no_opts\<lparr>opt_limit := Some 1\<rparr>) = Inr [memory_D]
   \<and> getContext example_services openai_config (table [memory_D, memory_B, memory_A]) ''e''
       (no_context_opts\<lparr>maxMemories := Some 1\<rparr>)
       = Inr \<lparr> ctx_memories = [memory_A], recentMessages = [],
               summary = ''Relevant memories:'' @ [CHR 0x0A] @ ''- prefers TypeScript'' \<rparr>"
proof -
  have h: "ctx_sessionId (no_context_opts\<lparr>maxMemories := Some 1\<rparr>) = None"
    by (simp add: no_context_opts_def)
  have r1: "recall example_services keyword_config (table [memory_B, memory_A]) ''e''
       (no_opts\<lparr>opt_limit := Some 1\<rparr>) = Inr [memory_A]"
    by (simp add: keyword_path_defs example_defs)
  have r2: "recall example_services keyword_config (table [memory_B, memory_A]) ''tea''
       (no_opts\<lparr>opt_limit := Some 1\<rparr>) = Inr []"
    by (simp add: keyword_path_defs example_defs)
  have r3: "recall example_services keyword_config (broken_table [memory_A]) ''e''
       (no_opts\<lparr>opt_limit := Some 1\<rparr>) = Inl (StoreError ConnectionFailure)"
    by (simp add: keyword_path_defs example_defs broken_table_def)
  have g1: "getContext example_services keyword_config (table [memory_B, memory_A]) ''e''
       (no_context_opts\<lparr>maxMemories := Some 1\<rparr>)
       = Inr \<lparr> ctx_memories = [memory_A], recentMessages = [],
               summary = ''Relevant memories:'' @ [CHR 0x0A] @ ''- prefers TypeScript'' \<rparr>"
    using h r1
      getContext_recall_and_summary [of "no_context_opts\<lparr>maxMemories := Some 1\<rparr>"
        example_services keyword_config "table [memory_B, memory_A]" "''e''"]
    by (simp add: Let_def no_opts_def no_context_opts_def memory_A_def)
  have g2: "getContext example_services keyword_config (table [memory_B, memory_A]) ''tea''
       (no_context_opts\<lparr>maxMemories := Some 1\<rparr>)
       = Inr \<lparr> ctx_memories = [], recentMessages = [],
               summary = ''No relevant memories found.'' \<rparr>"
    using h r2
      getContext_recall_and_summary [of "no_context_opts\<lparr>maxMemories := Some 1\<rparr>"
        example_services keyword_config "table [memory_B, memory_A]" "''tea''"]
    by (simp add: Let_def no_opts_def no_context_opts_def)
  have g3: "getContext example_services keyword_config (broken_table [memory_A]) ''e''
       (no_context_opts\<lparr>maxMemories := Some 1\<rparr>) = Inl (StoreError ConnectionFailure)"
    using r3
      getContext_recall_and_summary [of "no_context_opts\<lparr>maxMemories := Some 1\<rparr>"
        example_services keyword_config "broken_table [memory_A]" "''e''"]
    by (simp add: Let_def no_opts_def no_context_opts_def)
  have r4: "recall example_services openai_config (table [memory_D, memory_B, memory_A]) ''e''
       (no_opts\<lparr>opt_limit := Some 1\<rparr>) = Inr [memory_A]"
    by (simp add: semantic_path_defs example_defs)
  have y4: "hybridRecall example_services openai_config (table [memory_D, memory_B, memory_A]) ''e''
       (no_opts\<lparr>opt_limit := Some 1\<rparr>) = Inr [memory_D]"
    by (simp add: hybridRecall_def generateEmbedding_def openai_def or_default_string_def
        rpc_hybrid_search_memories_def throw_on_error_def nullish_def or_default_def example_defs)
  have g4: "getContext example_services openai_config (table [memory_D, memory_B, memory_A]) ''e''
       (no_context_opts\<lparr>maxMemories := Some 1\<rparr>)
       = Inr \<lparr> ctx_memories = [memory_A], recentMessages = [],
               summary = ''Relevant memories:'' @ [CHR 0x0A] @ ''- prefers TypeScript'' \<rparr>"
  proof -
    have e: "\<lparr> opt_userId = ctx_userId (no_context_opts\<lparr>maxMemories := Some 1\<rparr>),
              opt_category = None,
              opt_limit = Some (case maxMemories (no_context_opts\<lparr>maxMemories := Some 1\<rparr>) of
                                  None \<Rightarrow> 5 | Some n \<Rightarrow> if n = 0 then 5 else n),
              opt_minImportance = None, opt_minSimilarity = None,
              opt_vectorWeight = None, opt_keywordWeight = None \<rparr>
             = no_opts\<lparr>opt_limit := Some 1\<rparr>"
      by (simp add: no_opts_def no_context_opts_def)
    have sm: "(if [memory_A] = [] then ''No relevant memories found.''
               else ''Relevant memories:''
                    @ concat (map (\<lambda>m. CHR 0x0A # ''- '' @ content m) [memory_A]))
              = ''Relevant memories:'' @ [CHR 0x0A] @ ''- prefers TypeScript''"
      by (simp add: memory_A_def)
    note t = getContext_recall_and_summary [of "no_context_opts\<lparr>maxMemories := Some 1\<rparr>"
        example_services openai_config "table [memory_D, memory_B, memory_A]" "''e''",
        unfolded Let_def e, THEN conjunct2, THEN conjunct2, rule_format, OF conjI [OF r4 h]]
    from t show ?thesis
      by (simp only: sm)
  qed
  from h r1 g1 g2 r3 g3 r4 y4 g4 show ?thesis
    by (intro conjI)
qed

text \<open>
  C6 as stated fails for \<open>maxMemories = 0\<close>: \<open>getContext\<close> returns five of the six
  memories, while \<open>recall\<close> with the limit 0 returns all six.
\<close>

theorem getContext_zero_maxMemories_counterexample:
  "map_sum id ctx_memories
     (getContext example_services keyword_config (table six_facts) []
        (no_context_opts\<lparr>maxMemories := Some 0\<rparr>))
     = Inr [fact ''f1'' 6, fact ''f2'' 5, fact ''f3'' 4, fact ''f4'' 3, fact ''f5'' 2]
   \<and> recall example_services keyword_config (table six_facts) []
        (no_opts\<lparr>opt_userId := None, opt_limit := Some 0\<rparr>)
     = Inr [fact ''f1'' 6, fact ''f2'' 5, fact ''f3'' 4, fact ''f4'' 3, fact ''f5'' 2, fact ''f6'' 1]"
  by (simp add: getContext_def keyword_path_defs example_defs)


section \<open>findSimilarMemories\<close>

lemma vector_search_subset: "set (vector_search sv qv t n rows) \<subseteq> set rows"
  by (auto simp: vector_search_def dest: in_set_takeD)

lemma findSimilarMemories_member:
  assumes "findSimilarMemories sv c s memoryId opts = Inr rows" and "m \<in> set rows"
  shows "mem_id m \<noteq> memoryId"
    and "\<exists>src. find (\<lambda>m. mem_id m = memoryId) (memories s) = Some src \<and> agent_id m = agent_id src"
  using assms
  by (auto simp: findSimilarMemories_def find_similar_memories_def throw_on_error_def
      split: option.splits sum.splits dest!: subsetD [OF vector_search_subset])

text \<open>
  C7. While the store answers, \<open>findSimilarMemories\<close> fails with \<open>NotFound\<close> when no
  memory has the given id and when the memory with that id has no embedding. Otherwise
  it returns the vector-similarity retrieval for the embedding of that memory, with
  the threshold \<open>minSimilarity\<close>, 0.8 when none is given, and the count \<open>limit\<close>, 5 when
  none is given (or 0 is given), over the other memories of the agent of that memory;
  the memory with the given id is never in the result.
\<close>

theorem findSimilarMemories_not_found_or_others:
  assumes "fault s = None"
  shows "(memoryId \<notin> mem_id ` set (memories s) \<longrightarrow>
            findSimilarMemories sv c s memoryId opts = Inl (StoreError NotFound))
         \<and> (\<forall>src. find (\<lambda>m. mem_id m = memoryId) (memories s) = Some src \<and> embedding src = None \<longrightarrow>
               findSimilarMemories sv c s memoryId opts = Inl (StoreError NotFound))
         \<and> (\<forall>src qv. find (\<lambda>m. mem_id m = memoryId) (memories s) = Some src
                 \<and> embedding src = Some qv \<longrightarrow>
               findSimilarMemories sv c s memoryId opts
                 = Inr (vector_search sv qv
                          (case so_minSimilarity opts of None \<Rightarrow> 0.8 | Some t \<Rightarrow> t)
                          (case so_limit opts of None \<Rightarrow> 5 | Some n \<Rightarrow> if n = 0 then 5 else n)
                          (filter (\<lambda>m. agent_id m = agent_id src \<and> mem_id m \<noteq> memoryId)
                             (memories s))))
         \<and> (\<forall>rows. findSimilarMemories sv c s memoryId opts = Inr rows \<longrightarrow>
               memoryId \<notin> mem_id ` set rows)"
proof -
  have a: "memoryId \<notin> mem_id ` set (memories s) \<longrightarrow>
            findSimilarMemories sv c s memoryId opts = Inl (StoreError NotFound)"
  proof
    assume "memoryId \<notin> mem_id ` set (memories s)"
    then have "find (\<lambda>m. mem_id m = memoryId) (memories s) = None"
      by (auto simp: find_None_iff)
    with assms show "findSimilarMemories sv c s memoryId opts = Inl (StoreError NotFound)"
      by (simp add: findSimilarMemories_def find_similar_memories_def throw_on_error_def)
  qed
  have b: "\<forall>src. find (\<lambda>m. mem_id m = memoryId) (memories s) = Some src \<and> embedding src = None \<longrightarrow>
               findSimilarMemories sv c s memoryId opts = Inl (StoreError NotFound)"
    using assms
    by (simp add: findSimilarMemories_def find_similar_memories_def throw_on_error_def)
  have c: "\<forall>src qv. find (\<lambda>m. mem_id m = memoryId) (memories s) = Some src
                 \<and> embedding src = Some qv \<longrightarrow>
               findSimilarMemories sv c s memoryId opts
                 = Inr (vector_search sv qv
                          (case so_minSimilarity opts of None \<Rightarrow> 0.8 | Some t \<Rightarrow> t)
                          (case so_limit opts of None \<Rightarrow> 5 | Some n \<Rightarrow> if n = 0 then 5 else n)
                          (filter (\<lambda>m. agent_id m = agent_id src \<and> mem_id m \<noteq> memoryId)
                             (memories s)))"
    using assms
    by (simp add: findSimilarMemories_def find_similar_memories_def throw_on_error_def
        nullish_def or_default_def cong: option.case_cong)
  have d: "\<forall>rows. findSimilarMemories sv c s memoryId opts = Inr rows \<longrightarrow>
               memoryId \<notin> mem_id ` set rows"
    using findSimilarMemories_member(1) by fastforce
  from a b c d show ?thesis by blast
qed

theorem findSimilarMemories_not_found_or_others_witness:
  "fault (table [memory_B, memory_A, memory_C, memory_D]) = None
   \<and> ''z'' \<notin> mem_id ` set (memories (table [memory_B, memory_A, memory_C, memory_D]))
   \<and> findSimilarMemories example_services keyword_config
         (table [memory_B, memory_A, memory_C, memory_D]) ''z''
         \<lparr>so_minSimilarity = None, so_limit = None\<rparr> = Inl (StoreError NotFound)
   \<and> find (\<lambda>m. mem_id m = ''d'') (memories (table [memory_B, memory_A, memory_C, memory_D]))
       = Some memory_D
   \<and> embedding memory_D = None
   \<and> findSimilarMemories example_services keyword_config
         (table [memory_B, memory_A, memory_C, memory_D]) ''d''
         \<lparr>so_minSimilarity = None, so_limit = None\<rparr> = Inl (StoreError NotFound)
   \<and> findSimilarMemories example_services keyword_config
         (table [memory_B, memory_A, memory_C, memory_D]) ''a''
         \<lparr>so_minSimilarity = None, so_limit = None\<rparr> = Inr [memory_B]
   \<and> ''a'' \<notin> mem_id ` set [memory_B]"
proof -
  have h: "fault (table [memory_B, memory_A, memory_C, memory_D]) = None"
    by (simp add: table_def)
  have z: "''z'' \<notin> mem_id ` set (memories (table [memory_B, memory_A, memory_C, memory_D]))"
    by (simp add: example_defs)
  have d: "find (\<lambda>m. mem_id m = ''d'') (memories (table [memory_B, memory_A, memory_C, memory_D]))
       = Some memory_D \<and> embedding memory_D = None"
    by (simp add: example_defs)
  have a: "findSimilarMemories example_services keyword_config
         (table [memory_B, memory_A, memory_C, memory_D]) ''a''
         \<lparr>so_minSimilarity = None, so_limit = None\<rparr> = Inr [memory_B]"
    by (simp add: similar_path_defs example_defs)
  show ?thesis
    using h z d a
      findSimilarMemories_not_found_or_others [OF h, of "''z''" example_services keyword_config
        "\<lparr>so_minSimilarity = None, so_limit = None\<rparr>"]
      findSimilarMemories_not_found_or_others [OF h, of "''d''" example_services keyword_config
        "\<lparr>so_minSimilarity = None, so_limit = None\<rparr>"]
      findSimilarMemories_not_found_or_others [OF h, of "''a''" example_services keyword_config
        "\<lparr>so_minSimilarity = None, so_limit = None\<rparr>"]
    by simp
qed


section \<open>Scoping by agent\<close>

lemma recall_rows_of_agent:
  assumes "recall sv c s query opts = Inr rows" and "m \<in> set rows"
  shows "agent_id m = agentId c"
proof -
  consider (err) e where "generateEmbedding sv c query = Inl e"
    | (keyword) "generateEmbedding sv c query = Inr None"
    | (semantic) qe where "generateEmbedding sv c query = Inr (Some qe)"
    by (cases "generateEmbedding sv c query") auto
  then show ?thesis
  proof cases
    case err
    with assms show ?thesis by (simp add: recall_def)
  next
    case keyword
    with assms(1) have "select_memories sv s (keyword_query c query opts) = Inr rows"
      by (simp add: recall_keyword_path throw_on_error_def split: sum.splits)
    from select_keyword_matches [OF this assms(2)]
    show ?thesis by (simp add: matches_keyword_query)
  next
    case semantic
    note rows = recall_semantic_path [OF semantic assms(1)]
    with assms(2) have "match_candidate
                     \<lparr> query_embedding = qe,
                       match_threshold = nullish (opt_minSimilarity opts) 0.7,
                       match_count = or_default (opt_limit opts) 10,
                       p_agent_id = agentId c,
                       p_user_id = opt_userId opts,
                       p_category = opt_category opts,
                       p_min_importance = opt_minImportance opts \<rparr> m"
      by (auto dest: in_set_takeD)
    from match_candidate_filters(1) [OF this] show ?thesis by simp
  qed
qed

text \<open>
  C8 (as amended). The claim is that every operation is scoped to the rows of the
  agent of the instance, \<open>forget\<close> and \<open>findSimilarMemories\<close> in particular. The two are
  keyed by the memory id alone. What holds: every memory that \<open>recall\<close> returns belongs
  to the agent of the instance, and \<open>remember\<close> stores the new row under that agent;
  \<open>forget\<close> does not depend on the configuration of the instance and, while the store
  answers, removes exactly the rows with the given id, whoever owns them;
  \<open>findSimilarMemories\<close> does not depend on the configuration either, and the memories
  it returns belong to the agent of the referenced memory.
\<close>

theorem agent_scoping_of_operations:
  "(\<forall>rows. recall sv c s query opts = Inr rows \<longrightarrow> (\<forall>m \<in> set rows. agent_id m = agentId c))
   \<and> (\<forall>m s'. remember sv c s d inp = (Inr m, s') \<longrightarrow> agent_id m = agentId c)
   \<and> forget c s memoryId = forget c' s memoryId
   \<and> (fault s = None \<longrightarrow>
        forget c s memoryId
          = (Inr (), s\<lparr>memories := filter (\<lambda>m. mem_id m \<noteq> memoryId) (memories s)\<rparr>))
   \<and> findSimilarMemories sv c s memoryId sopts = findSimilarMemories sv c' s memoryId sopts
   \<and> (\<forall>rows. findSimilarMemories sv c s memoryId sopts = Inr rows \<longrightarrow>
        (\<forall>m \<in> set rows. \<exists>src. find (\<lambda>m. mem_id m = memoryId) (memories s) = Some src
                               \<and> agent_id m = agent_id src))"
proof -
  have a: "\<forall>rows. recall sv c s query opts = Inr rows \<longrightarrow> (\<forall>m \<in> set rows. agent_id m = agentId c)"
    using recall_rows_of_agent by blast
  have b: "\<forall>m s'. remember sv c s d inp = (Inr m, s') \<longrightarrow> agent_id m = agentId c"
    by (auto simp: remember_def insert_memory_def remember_row_def Let_def
        split: sum.splits option.splits prod.splits)
  have f: "forget c s memoryId = forget c' s memoryId"
    by (simp add: forget_def)
  have g: "fault s = None \<longrightarrow>
        forget c s memoryId
          = (Inr (), s\<lparr>memories := filter (\<lambda>m. mem_id m \<noteq> memoryId) (memories s)\<rparr>)"
    by (simp add: forget_def delete_memories_def matches_def)
  have h: "findSimilarMemories sv c s memoryId sopts = findSimilarMemories sv c' s memoryId sopts"
    by (simp add: findSimilarMemories_def)
  have i: "\<forall>rows. findSimilarMemories sv c s memoryId sopts = Inr rows \<longrightarrow>
        (\<forall>m \<in> set rows. \<exists>src. find (\<lambda>m. mem_id m = memoryId) (memories s) = Some src
                               \<and> agent_id m = agent_id src)"
    using findSimilarMemories_member(2) by blast
  from a b f g h i show ?thesis by blast
qed

theorem agent_scoping_of_operations_witness:
  "recall example_services keyword_config (table [memory_C, memory_B, memory_A]) ''TypeScript'' no_opts
     = Inr [memory_A]
   \<and> agent_id memory_A = agentId keyword_config
   \<and> remember example_services keyword_config (table [memory_C, memory_B, memory_A]) fresh_row
       tea_input = (Inr memory_E, table [memory_C, memory_B, memory_A, memory_E])
   \<and> agent_id memory_E = agentId keyword_config
   \<and> fault (table [memory_C, memory_B, memory_A]) = None
   \<and> forget keyword_config (table [memory_C, memory_B, memory_A]) ''a''
       = (Inr (), table [memory_C, memory_B])
   \<and> findSimilarMemories example_services keyword_config (table [memory_C, memory_B, memory_A]) ''a''
       \<lparr>so_minSimilarity = None, so_limit = None\<rparr> = Inr [memory_B]
   \<and> agent_id memory_B = agent_id memory_A"
proof -
  have r: "recall example_services keyword_config (table [memory_C, memory_B, memory_A])
             ''TypeScript'' no_opts = Inr [memory_A]"
    by (simp add: keyword_path_defs example_defs)
  have w: "remember example_services keyword_config (table [memory_C, memory_B, memory_A]) fresh_row
       tea_input = (Inr memory_E, table [memory_C, memory_B, memory_A, memory_E])"
    by (simp add: remember_def generateEmbedding_def insert_memory_def remember_row_def
        nullish_def Let_def example_defs)
  have h: "fault (table [memory_C, memory_B, memory_A]) = None"
    by (simp add: table_def)
  have f: "findSimilarMemories example_services keyword_config (table [memory_C, memory_B, memory_A])
       ''a'' \<lparr>so_minSimilarity = None, so_limit = None\<rparr> = Inr [memory_B]"
    by (simp add: similar_path_defs example_defs)
  have t: "(table [memory_C, memory_B, memory_A])
             \<lparr>memories := filter (\<lambda>m. mem_id m \<noteq> ''a'') (memories (table [memory_C, memory_B, memory_A]))\<rparr>
           = table [memory_C, memory_B]"
    by (simp add: example_defs)
  show ?thesis
    using r w h f t
      agent_scoping_of_operations [of example_services keyword_config
        "table [memory_C, memory_B, memory_A]" "''TypeScript''" no_opts fresh_row tea_input
        "''a''" keyword_config "\<lparr>so_minSimilarity = None, so_limit = None\<rparr>"]
    by (simp add: example_defs)
qed

text \<open>
  C8 as stated fails: the instance of the agent \<open>agent-1\<close> deletes a memory of the
  agent \<open>agent-2\<close>.
\<close>

theorem forget_other_agent_counterexample:
  "agentId keyword_config = ''agent-1''
   \<and> agent_id memory_C = ''agent-2''
   \<and> forget keyword_config (table [memory_A, memory_C]) ''c'' = (Inr (), table [memory_A])"
  by (simp add: forget_def delete_memories_def matches_def example_defs)


end
